theory Spec2Isabelle
  imports Main "HOL-Library.Sublist" "HOL-Library.Word" "HOL-Library.Code_Target_Numeral"
begin

unbundle bit_operations_syntax

section \<open>JavaScript values used by claire.js\<close>

text \<open>
  The extension is one JavaScript file. The model keeps the values the file
  handles apart by type: a string that may be \<^verbatim>\<open>undefined\<close> (an array element
  past the end, an optional field of a platform object) is a \<open>token\<close>; the
  result of \<^verbatim>\<open>parseInt\<close> is a \<open>jsnum\<close>; the operands and the result of the
  one subtraction are \<open>double\<close>s; a value whose type the file never checks
  (the reported transport status) is a \<open>jsval\<close>.
  Strings are lists of 8-bit code units, which covers the HTTP header names
  and values the file reads.
\<close>

datatype token = Undefined | Str string

text \<open>
  A number that \<^verbatim>\<open>parseInt\<close> can return: \<open>NaN\<close>, an integer-valued double
  or an infinity. Negative zero is identified with zero: the file only applies
  \<^verbatim>\<open>&\<close> to the number and stores it, and both treat the two zeros alike.
\<close>

datatype jsnum = NaN | Fin int | PosInf | NegInf

datatype jsval = JUndefined | JNull | JBool bool | JNumber jsnum | JString string | JObject

datatype error = TypeError

text \<open>Truthiness, as \<^verbatim>\<open>if (v)\<close> tests it.\<close>

fun truthy :: "jsval \<Rightarrow> bool" where
  "truthy JUndefined = False"
| "truthy JNull = False"
| "truthy (JBool b) = b"
| "truthy (JNumber n) = (n \<noteq> NaN \<and> n \<noteq> Fin 0)"
| "truthy (JString s) = (s \<noteq> [])"
| "truthy JObject = True"

text \<open>\<^verbatim>\<open>String(v)\<close> for a string that may be undefined.\<close>

fun ToString :: "token \<Rightarrow> string" where
  "ToString Undefined = ''undefined''"
| "ToString (Str s) = s"

subsection \<open>String.prototype.indexOf, split, toUpperCase, Array.prototype.join\<close>

text \<open>\<^verbatim>\<open>s.indexOf(pat)\<close>: the first position where \<open>pat\<close> starts, or -1.\<close>

fun indexOf_from :: "string \<Rightarrow> string \<Rightarrow> nat \<Rightarrow> int" where
  "indexOf_from [] pat i = (if pat = [] then int i else - 1)"
| "indexOf_from (c # cs) pat i =
     (if prefix pat (c # cs) then int i else indexOf_from cs pat (Suc i))"

definition indexOf :: "string \<Rightarrow> string \<Rightarrow> int" where
  "indexOf s pat = indexOf_from s pat 0"

text \<open>
  \<^verbatim>\<open>s.split(sep)\<close> for a one-character separator: every occurrence of the
  separator ends a piece, so the result is never empty and adjacent separators
  give empty pieces.
\<close>

fun split_from :: "char \<Rightarrow> string \<Rightarrow> string \<Rightarrow> string list" where
  "split_from sep cur [] = [cur]"
| "split_from sep cur (c # cs) =
     (if c = sep then cur # split_from sep [] cs else split_from sep (cur @ [c]) cs)"

definition split :: "string \<Rightarrow> char \<Rightarrow> string list" where
  "split s sep = split_from sep [] s"

text \<open>\<^verbatim>\<open>parts[i]\<close>: reading an array past its end gives \<^verbatim>\<open>undefined\<close>.\<close>

definition element :: "string list \<Rightarrow> nat \<Rightarrow> token" where
  "element parts i = (if i < length parts then Str (parts ! i) else Undefined)"

text \<open>
  \<^verbatim>\<open>name.toUpperCase()\<close> on code units below 256: the letters \<^verbatim>\<open>a\<close> to \<^verbatim>\<open>z\<close>
  and the small letters of Latin-1 (0xE0 to 0xFE without the division sign
  0xF7) move to their capitals, the sharp s 0xDF becomes \<^verbatim>\<open>SS\<close>, and every
  other code unit stays, with two exceptions: the capitals of the micro sign
  0xB5 and of 0xFF are U+039C and U+0178, which are no code units below 256.
  A name with one of the two has no upper-case form among these strings
  (\<open>None\<close>).
\<close>

definition latin1_small :: string where
  "latin1_small =
     [CHR 0xE0, CHR 0xE1, CHR 0xE2, CHR 0xE3, CHR 0xE4, CHR 0xE5, CHR 0xE6, CHR 0xE7,
      CHR 0xE8, CHR 0xE9, CHR 0xEA, CHR 0xEB, CHR 0xEC, CHR 0xED, CHR 0xEE, CHR 0xEF,
      CHR 0xF0, CHR 0xF1, CHR 0xF2, CHR 0xF3, CHR 0xF4, CHR 0xF5, CHR 0xF6, CHR 0xF8,
      CHR 0xF9, CHR 0xFA, CHR 0xFB, CHR 0xFC, CHR 0xFD, CHR 0xFE]"

definition latin1_capital :: string where
  "latin1_capital =
     [CHR 0xC0, CHR 0xC1, CHR 0xC2, CHR 0xC3, CHR 0xC4, CHR 0xC5, CHR 0xC6, CHR 0xC7,
      CHR 0xC8, CHR 0xC9, CHR 0xCA, CHR 0xCB, CHR 0xCC, CHR 0xCD, CHR 0xCE, CHR 0xCF,
      CHR 0xD0, CHR 0xD1, CHR 0xD2, CHR 0xD3, CHR 0xD4, CHR 0xD5, CHR 0xD6, CHR 0xD8,
      CHR 0xD9, CHR 0xDA, CHR 0xDB, CHR 0xDC, CHR 0xDD, CHR 0xDE]"

definition upper_char :: "char \<Rightarrow> string option" where
  "upper_char c =
     (case map_of (zip (''abcdefghijklmnopqrstuvwxyz'' @ latin1_small)
                       (''ABCDEFGHIJKLMNOPQRSTUVWXYZ'' @ latin1_capital)) c of
        Some u \<Rightarrow> Some [u]
      | None \<Rightarrow>
          if c = CHR 0xDF then Some ''SS''
          else if c = CHR 0xB5 \<or> c = CHR 0xFF then None
          else Some [c])"

fun toUpperCase :: "string \<Rightarrow> string option" where
  "toUpperCase [] = Some []"
| "toUpperCase (c # cs) =
     (case upper_char c of
        None \<Rightarrow> None
      | Some u \<Rightarrow> map_option (\<lambda>us. u @ us) (toUpperCase cs))"

fun join :: "string list \<Rightarrow> string \<Rightarrow> string" where
  "join [] sep = []"
| "join [x] sep = x"
| "join (x # y # ys) sep = x @ sep @ join (y # ys) sep"

subsection \<open>parseInt(s, 10) and the coercion of \<^verbatim>\<open>&\<close>\<close>

definition is_digit :: "char \<Rightarrow> bool" where
  "is_digit c = (48 \<le> (of_char c :: nat) \<and> (of_char c :: nat) \<le> 57)"

text \<open>The white space \<^verbatim>\<open>parseInt\<close> skips, among the code units below 256.\<close>

definition StrWhiteSpaceChar :: "char \<Rightarrow> bool" where
  "StrWhiteSpaceChar c = ((of_char c :: nat) \<in> {9, 10, 11, 12, 13, 32, 160})"

fun digits_value :: "nat \<Rightarrow> string \<Rightarrow> nat" where
  "digits_value acc [] = acc"
| "digits_value acc (c # cs) = digits_value (10 * acc + ((of_char c :: nat) - 48)) cs"

fun bit_length :: "nat \<Rightarrow> nat" where
  "bit_length n = (if n = 0 then 0 else Suc (bit_length (n div 2)))"

declare bit_length.simps [simp del]

text \<open>
  The double nearest to an integer of the given sign and magnitude (ties to
  the even significand of 53 bits, infinity from \<open>2 ^ 1024\<close> on). Below
  \<open>2 ^ 53\<close> the integer is its own double.
\<close>

definition to_double :: "bool \<Rightarrow> nat \<Rightarrow> jsnum" where
  "to_double neg n =
     (let e = bit_length n - 53;
          q = n div 2 ^ e;
          r = n mod 2 ^ e;
          q' = (if 2 ^ e < 2 * r \<or> (2 * r = 2 ^ e \<and> odd q) then q + 1 else q);
          m = q' * 2 ^ e
      in if 2 ^ 1024 \<le> m then (if neg then NegInf else PosInf)
         else Fin (if neg then - int m else int m))"

text \<open>
  \<^verbatim>\<open>parseInt(t, 10)\<close>: the argument is converted to a string, leading white
  space is dropped, one sign is read, and the longest run of decimal digits is
  the value; with no digit the result is \<open>NaN\<close>. Radix 10 strips no
  \<^verbatim>\<open>0x\<close> prefix.
\<close>

definition parseInt10 :: "token \<Rightarrow> jsnum" where
  "parseInt10 t =
     (let s = dropWhile StrWhiteSpaceChar (ToString t);
          neg = (s \<noteq> [] \<and> hd s = CHR ''-'');
          s1 = (if s \<noteq> [] \<and> (hd s = CHR ''-'' \<or> hd s = CHR ''+'') then tl s else s);
          ds = takeWhile is_digit s1
      in if ds = [] then NaN else to_double neg (digits_value 0 ds))"

text \<open>\<^verbatim>\<open>ToInt32\<close>, the coercion \<^verbatim>\<open>&\<close> applies to both operands.\<close>

definition ToInt32 :: "jsnum \<Rightarrow> int" where
  "ToInt32 x = (case x of Fin n \<Rightarrow> (n + 2 ^ 31) mod 2 ^ 32 - 2 ^ 31 | _ \<Rightarrow> 0)"

definition bitand :: "jsnum \<Rightarrow> jsnum \<Rightarrow> int" where
  "bitand x y = ToInt32 x AND ToInt32 y"

text \<open>The decimal digits of a natural number.\<close>

fun digits_of :: "nat \<Rightarrow> string" where
  "digits_of n =
     (if n < 10 then [''0123456789'' ! n]
      else digits_of (n div 10) @ [''0123456789'' ! (n mod 10)])"

declare digits_of.simps [simp del]

subsection \<open>Numbers: ToNumber, subtraction and Number::toString\<close>

text \<open>
  \<^verbatim>\<open>100 - parts[1]\<close> converts the token to a Number and subtracts in
  double-precision arithmetic, and \<^verbatim>\<open>+ '%'\<close> converts the difference to a
  string. A double is \<open>NaN\<close>, an infinity with its sign (\<open>True\<close> for minus) or
  a finite value: \<open>DFin neg m k\<close> is \<open>m / 2 ^ k\<close> with the sign \<open>neg\<close>, and
  every finite double has this form.
\<close>

datatype double = DNaN | DInf bool | DFin bool nat nat

fun decimal_length :: "nat \<Rightarrow> nat" where
  "decimal_length n = (if n = 0 then 0 else Suc (decimal_length (n div 10)))"

declare decimal_length.simps [simp del]

text \<open>\<open>\<lfloor>log\<^sub>2 (p / q)\<rfloor>\<close> and \<open>\<lfloor>log\<^sub>1\<^sub>0 (p / q)\<rfloor>\<close> for positive \<open>p\<close> and \<open>q\<close>.\<close>

definition floor_log2 :: "nat \<Rightarrow> nat \<Rightarrow> int" where
  "floor_log2 p q =
     (let t = int (bit_length p) - int (bit_length q)
      in if (if 0 \<le> t then q * 2 ^ nat t \<le> p else q \<le> p * 2 ^ nat (- t)) then t else t - 1)"

definition floor_log10 :: "nat \<Rightarrow> nat \<Rightarrow> int" where
  "floor_log10 p q =
     (let t = int (decimal_length p) - int (decimal_length q)
      in if (if 0 \<le> t then q * 10 ^ nat t \<le> p else q \<le> p * 10 ^ nat (- t)) then t else t - 1)"

text \<open>
  The magnitude of the double nearest to \<open>p / q\<close>, as \<open>(m, k)\<close> for
  \<open>m / 2 ^ k\<close>, or \<open>None\<close> when the value rounds to infinity. The last
  place kept is \<open>2 ^ e\<close>: 52 places below the leading bit, and never below
  \<open>2 ^ - 1074\<close>, the spacing of the subnormal numbers. Ties go to the even
  significand.
\<close>

definition round_double :: "nat \<Rightarrow> nat \<Rightarrow> (nat \<times> nat) option" where
  "round_double p q =
     (if p = 0 then Some (0, 0)
      else
        let e = max (- 1074) (floor_log2 p q - 52);
            n = (if e < 0 then p * 2 ^ nat (- e) else p);
            d = (if e < 0 then q else q * 2 ^ nat e);
            m0 = n div d;
            r = n mod d;
            m = (if d < 2 * r \<or> (2 * r = d \<and> odd m0) then m0 + 1 else m0)
        in if e < 0 then Some (m, nat (- e))
           else if 2 ^ 1024 \<le> m * 2 ^ nat e then None
           else Some (m * 2 ^ nat e, 0))"

definition to_number :: "bool \<Rightarrow> nat \<Rightarrow> nat \<Rightarrow> double" where
  "to_number neg p q =
     (case round_double p q of None \<Rightarrow> DInf neg | Some (m, k) \<Rightarrow> DFin neg m k)"

text \<open>\<open>mant * 10 ^ ex\<close> as a fraction.\<close>

definition scaled :: "nat \<Rightarrow> int \<Rightarrow> nat \<times> nat" where
  "scaled mant ex = (if 0 \<le> ex then (mant * 10 ^ nat ex, 1) else (mant, 10 ^ nat (- ex)))"

text \<open>
  The grammar of a numeric string. An unsigned decimal literal is digits with
  an optional fraction and an optional exponent, or a fraction that starts
  with the point; at least one digit stands before the exponent. The result is
  the digits as a number and the power of ten to multiply it by.
\<close>

definition StrUnsignedDecimalLiteral :: "string \<Rightarrow> (nat \<times> int) option" where
  "StrUnsignedDecimalLiteral s =
     (let ip = takeWhile is_digit s;
          r1 = dropWhile is_digit s;
          dot = (r1 \<noteq> [] \<and> hd r1 = CHR ''.'');
          fp = (if dot then takeWhile is_digit (tl r1) else []);
          r2 = (if dot then dropWhile is_digit (tl r1) else r1);
          mant = digits_value 0 (ip @ fp)
      in if ip = [] \<and> fp = [] then None
         else if r2 = [] then Some (mant, - int (length fp))
         else if hd r2 = CHR ''e'' \<or> hd r2 = CHR ''E'' then
           (let r3 = tl r2;
                eneg = (r3 \<noteq> [] \<and> hd r3 = CHR ''-'');
                r4 = (if r3 \<noteq> [] \<and> (hd r3 = CHR ''-'' \<or> hd r3 = CHR ''+'') then tl r3 else r3)
            in if r4 \<noteq> [] \<and> list_all is_digit r4
               then Some (mant, (if eneg then - int (digits_value 0 r4) else int (digits_value 0 r4))
                                - int (length fp))
               else None)
         else None)"

fun radix_value :: "nat \<Rightarrow> nat \<Rightarrow> string \<Rightarrow> nat option" where
  "radix_value radix acc [] = Some acc"
| "radix_value radix acc (c # cs) =
     (case map_of (zip ''0123456789abcdef'' [0, 1, 2, 3, 4, 5, 6, 7, 8, 9, 10, 11, 12, 13, 14, 15]
                   @ zip ''ABCDEF'' [10, 11, 12, 13, 14, 15]) c of
        None \<Rightarrow> None
      | Some v \<Rightarrow> if v < radix then radix_value radix (radix * acc + v) cs else None)"

text \<open>
  A literal with the prefix \<^verbatim>\<open>0x\<close>, \<^verbatim>\<open>0o\<close> or \<^verbatim>\<open>0b\<close>: \<open>None\<close> without such a
  prefix, \<open>Some None\<close> when the prefix is not followed by digits of its radix
  only, \<open>Some (Some v)\<close> for the value.
\<close>

definition NonDecimalIntegerLiteral :: "string \<Rightarrow> nat option option" where
  "NonDecimalIntegerLiteral t =
     (let radix = (if prefix ''0x'' t \<or> prefix ''0X'' t then Some 16
                   else if prefix ''0o'' t \<or> prefix ''0O'' t then Some 8
                   else if prefix ''0b'' t \<or> prefix ''0B'' t then Some 2
                   else None)
      in case radix of
           None \<Rightarrow> None
         | Some r \<Rightarrow> Some (if drop 2 t = [] then None else radix_value r 0 (drop 2 t)))"

text \<open>
  \<^verbatim>\<open>Number(s)\<close> for a string: white space is trimmed at both ends, the empty
  string is 0, a string that is no numeric literal is \<open>NaN\<close>, and the value of
  a literal is rounded to the nearest double, as the engines do for a literal of
  any length (past its twentieth significant digit the language leaves them
  the choice between the two doubles around the value).
\<close>

definition StringToNumber :: "string \<Rightarrow> double" where
  "StringToNumber s =
     (let t = rev (dropWhile StrWhiteSpaceChar (rev (dropWhile StrWhiteSpaceChar s)))
      in if t = [] then DFin False 0 0
         else case NonDecimalIntegerLiteral t of
           Some None \<Rightarrow> DNaN
         | Some (Some v) \<Rightarrow> to_number False v 1
         | None \<Rightarrow>
             let neg = (hd t = CHR ''-'');
                 u = (if hd t = CHR ''-'' \<or> hd t = CHR ''+'' then tl t else t)
             in if u = ''Infinity'' then DInf neg
                else case StrUnsignedDecimalLiteral u of
                       None \<Rightarrow> DNaN
                     | Some (mant, ex) \<Rightarrow>
                         to_number neg (fst (scaled mant ex)) (snd (scaled mant ex)))"

definition ToNumber :: "token \<Rightarrow> double" where
  "ToNumber t = (case t of Undefined \<Rightarrow> DNaN | Str s \<Rightarrow> StringToNumber s)"

text \<open>
  \<^verbatim>\<open>x - y\<close> on doubles: the exact difference of two finite values, rounded.
  A difference of zero is given the sign plus; the sign of a zero does not show
  in its string.
\<close>

fun subtract :: "double \<Rightarrow> double \<Rightarrow> double" where
  "subtract DNaN y = DNaN"
| "subtract x DNaN = DNaN"
| "subtract (DInf a) (DInf b) = (if a = b then DNaN else DInf a)"
| "subtract (DInf a) (DFin bn bm bk) = DInf a"
| "subtract (DFin an am ak) (DInf b) = DInf (\<not> b)"
| "subtract (DFin an am ak) (DFin bn bm bk) =
     (let k = max ak bk;
          x = (if an then - int (am * 2 ^ (k - ak)) else int (am * 2 ^ (k - ak)));
          y = (if bn then - int (bm * 2 ^ (k - bk)) else int (bm * 2 ^ (k - bk)))
      in to_number (x - y < 0) (nat \<bar>x - y\<bar>) (2 ^ k))"

text \<open>
  \<^verbatim>\<open>String(x)\<close> for a Number writes the shortest decimal that rounds to
  \<open>x\<close>. For a positive \<open>x = p / q\<close> with \<open>10 ^ (n0 - 1) \<le> x < 10 ^ n0\<close>,
  \<open>candidate\<close> looks for a decimal of \<open>k\<close> digits that rounds to \<open>x\<close>: only
  the two decimals around \<open>x\<close> can, and where both do the nearer one is taken
  (the even one at a tie).
\<close>

definition candidate :: "nat \<Rightarrow> nat \<Rightarrow> int \<Rightarrow> nat \<Rightarrow> nat option" where
  "candidate p q n0 k =
     (let j = int k - n0;
          n = (if 0 \<le> j then p * 10 ^ nat j else p);
          d = (if 0 \<le> j then q else q * 10 ^ nat (- j));
          lo = n div d;
          r = n mod d;
          ok = (\<lambda>c. case round_double (fst (scaled c (- j))) (snd (scaled c (- j))) of
                        None \<Rightarrow> False
                      | Some (m, e) \<Rightarrow> m * q = p * 2 ^ e);
          near_lo = (2 * r < d \<or> (2 * r = d \<and> even lo))
      in if ok lo \<and> ok (lo + 1) then Some (if near_lo then lo else lo + 1)
         else if ok lo then Some lo
         else if ok (lo + 1) then Some (lo + 1)
         else None)"

text \<open>The first number of digits with a candidate; seventeen digits always have one.\<close>

fun shortest :: "nat \<Rightarrow> nat \<Rightarrow> int \<Rightarrow> nat list \<Rightarrow> nat \<times> nat" where
  "shortest p q n0 [] = (0, 0)"
| "shortest p q n0 (k # ks) =
     (case candidate p q n0 k of Some c \<Rightarrow> (c, k) | None \<Rightarrow> shortest p q n0 ks)"

definition strip_zeros :: "string \<Rightarrow> string" where
  "strip_zeros ds = rev (dropWhile (\<lambda>c. c = CHR ''0'') (rev ds))"

text \<open>
  The digits \<open>ds\<close> and the position \<open>n\<close> of the decimal point are laid out as
  Number::toString prescribes: plain digits up to 21 places, a leading
  \<^verbatim>\<open>0.\<close> down to six zeros after the point, exponent notation otherwise.
\<close>

definition positive_toString :: "nat \<Rightarrow> nat \<Rightarrow> string" where
  "positive_toString p q =
     (let n0 = floor_log10 p q + 1;
          (c, k0) = shortest p q n0 [1, 2, 3, 4, 5, 6, 7, 8, 9, 10, 11, 12, 13, 14, 15, 16, 17];
          n = n0 + (int (decimal_length c) - int k0);
          ds = strip_zeros (digits_of c);
          k = int (length ds)
      in if k \<le> n \<and> n \<le> 21 then ds @ replicate (nat (n - k)) (CHR ''0'')
         else if 0 < n \<and> n \<le> 21 then take (nat n) ds @ ''.'' @ drop (nat n) ds
         else if - 6 < n \<and> n \<le> 0 then ''0.'' @ replicate (nat (- n)) (CHR ''0'') @ ds
         else
           (let ex = n - 1;
                es = (if ex < 0 then ''-'' else ''+'') @ digits_of (nat \<bar>ex\<bar>)
            in if k = 1 then ds @ ''e'' @ es
               else hd ds # ''.'' @ tl ds @ ''e'' @ es))"

definition Number_toString :: "double \<Rightarrow> string" where
  "Number_toString x =
     (case x of
        DNaN \<Rightarrow> ''NaN''
      | DInf neg \<Rightarrow> (if neg then ''-Infinity'' else ''Infinity'')
      | DFin neg m k \<Rightarrow>
          if m = 0 then ''0''
          else (if neg then ''-'' else '''') @ positive_toString m (2 ^ k))"

text \<open>\<^verbatim>\<open>String(100 - t)\<close>, the left operand of \<^verbatim>\<open>(100 - parts[1]) + '%'\<close>.\<close>

definition minus_from_100 :: "token \<Rightarrow> string" where
  "minus_from_100 t = Number_toString (subtract (DFin False 100 0) (ToNumber t))"

section \<open>The Railgun header decoder\<close>

text \<open>
  \<^verbatim>\<open>railgunMetaData\<close> is an object that starts empty and receives the keys
  \<^verbatim>\<open>normal\<close>, \<^verbatim>\<open>id\<close>, \<^verbatim>\<open>version\<close>, \<^verbatim>\<open>compression\<close>, \<^verbatim>\<open>time\<close>, \<^verbatim>\<open>flags\<close> and
  \<^verbatim>\<open>messages\<close>. A field is \<open>None\<close> while the object has no such key.
\<close>

record metadata =
  normal :: "bool option"
  id' :: "token option"
  version :: "token option"
  compression :: "string option"
  time :: "string option"
  flags :: "jsnum option"
  messages :: "string list option"

definition empty_object :: metadata where
  "empty_object =
     \<lparr>normal = None, id' = None, version = None, compression = None, time = None,
      flags = None, messages = None\<rparr>"

text \<open>The flag table, in the order the object literal lists its keys: key, position, message.\<close>

definition railgunFlags :: "(string \<times> int \<times> string) list" where
  "railgunFlags =
     [(''FLAG_DOMAIN_MAP_USED'', 0x01, ''map.file used to change IP''),
      (''FLAG_DEFAULT_IP_USED'', 0x02, ''map.file default IP used''),
      (''FLAG_HOST_CHANGE'', 0x04, ''Host name change''),
      (''FLAG_REUSED_CONNECTION'', 0x08, ''Existing connection reused''),
      (''FLAG_HAD_DICTIONARY'', 0x10, ''Railgun sender sent dictionary''),
      (''FLAG_WAS_CACHED'', 0x20, ''Dictionary found in memcache''),
      (''FLAG_RESTART_CONNECTION'', 0x40, ''Restarted broken origin connection'')]"

text \<open>
  The \<^verbatim>\<open>for (var flagKey in railgunFlags)\<close> loop: it visits the keys in the
  order of the literal and pushes the message of every flag whose position
  has a bit in common with the bitset.
\<close>

fun decode_flags :: "jsnum \<Rightarrow> (string \<times> int \<times> string) list \<Rightarrow> string list \<Rightarrow> string list" where
  "decode_flags flagsBitset [] msgs = msgs"
| "decode_flags flagsBitset ((flagKey, position, message) # rest) msgs =
     decode_flags flagsBitset rest
       (if bitand flagsBitset (Fin position) \<noteq> 0 then msgs @ [message] else msgs)"

definition processRailgunHeader :: "token \<Rightarrow> metadata" where
  "processRailgunHeader railgunHeader =
     (case railgunHeader of
        Undefined \<Rightarrow> empty_object
      | Str h \<Rightarrow>
          let railgunNormal = (indexOf h ''normal'' \<noteq> - 1);
              parts = split h (CHR '' '');
              md = empty_object\<lparr>normal := Some railgunNormal, id' := Some (element parts 0)\<rparr>;
              flagsBitset =
                (if railgunNormal then parseInt10 (element parts 1)
                 else parseInt10 (element parts 3));
              md' =
                (if railgunNormal then md\<lparr>version := Some (element parts 3)\<rparr>
                 else md\<lparr>compression := Some (minus_from_100 (element parts 1) @ ''%''),
                         time := Some (ToString (element parts 2) @ ''sec''),
                         version := Some (element parts 4)\<rparr>)
          in md'\<lparr>flags := Some flagsBitset,
                 messages := Some (decode_flags flagsBitset railgunFlags [])\<rparr>)"

section \<open>The Request object\<close>

record header =
  header_name :: string
  header_value :: token

text \<open>
  The details objects the platform passes to the listeners. Both carry the
  tab id; \<^verbatim>\<open>ip\<close> and \<^verbatim>\<open>responseHeaders\<close> are optional fields of the
  completion details, \<^verbatim>\<open>value\<close> is an optional field of a header. The frame
  id of a navigation event is 0 for the top frame of the tab and positive for
  a sub-frame.
\<close>

record event_details =
  tabId :: int

record request_details = event_details +
  url :: string
  ip :: token
  fromCache :: bool
  responseHeaders :: "header list option"

record navigation_details = event_details +
  frameId :: int

record Request =
  details :: request_details
  headersRaw :: "header list option"
  headers :: "string \<rightharpoonup> token"
  hasSPDYStatus :: bool
  railgunMetaData :: "metadata option"
  SPDY :: jsval

text \<open>
  The \<^verbatim>\<open>forEach\<close> of \<^verbatim>\<open>preProcessHeaders\<close>: every header is stored under
  its upper-cased name, in the order of the array, a later one replacing an
  earlier one of the same name. The map holds the keys of the \<^verbatim>\<open>headers\<close>
  object that are made of code units below 256, which are the keys a string of
  this theory can ask for: a header whose upper-cased name has a code unit
  above (see \<open>upper_char\<close>) is stored by the file under a key outside the map,
  and leaves the map as it is.
\<close>

definition store_headers :: "header list \<Rightarrow> (string \<rightharpoonup> token) \<Rightarrow> (string \<rightharpoonup> token)" where
  "store_headers raw hs =
     fold (\<lambda>h hs. case toUpperCase (header_name h) of
                     None \<Rightarrow> hs
                   | Some key \<Rightarrow> hs(key \<mapsto> header_value h)) raw hs"

text \<open>
  \<^verbatim>\<open>preProcessHeaders\<close>: \<^verbatim>\<open>forEach\<close> on an absent header array raises; otherwise
  the headers are stored and the Railgun header is decoded when its key is there.
\<close>

definition preProcessHeaders :: "Request \<Rightarrow> error + Request" where
  "preProcessHeaders this =
     (case headersRaw this of
        None \<Rightarrow> Inl TypeError
      | Some raw \<Rightarrow>
          let this1 = this\<lparr>headers := store_headers raw (headers this)\<rparr>
          in Inr (case headers this1 ''CF-RAILGUN'' of
                    None \<Rightarrow> this1
                  | Some railgunHeader \<Rightarrow>
                      this1\<lparr>railgunMetaData := Some (processRailgunHeader railgunHeader)\<rparr>))"

text \<open>The constructor \<^verbatim>\<open>new Request(details)\<close>.\<close>

definition new_Request :: "request_details \<Rightarrow> error + Request" where
  "new_Request d =
     preProcessHeaders
       \<lparr>details = d, headersRaw = responseHeaders d, headers = Map.empty,
        hasSPDYStatus = False, railgunMetaData = None, SPDY = JUndefined\<rparr>"

definition servedByCloudFlare :: "Request \<Rightarrow> bool" where
  "servedByCloudFlare this =
     (headers this ''SERVER'' \<noteq> None \<and> headers this ''SERVER'' = Some (Str ''cloudflare-nginx''))"

definition servedByRailgun :: "Request \<Rightarrow> bool" where
  "servedByRailgun this = (headers this ''CF-RAILGUN'' \<noteq> None)"

definition servedOverSPDY :: "Request \<Rightarrow> jsval" where
  "servedOverSPDY this = SPDY this"

definition getRayID :: "Request \<Rightarrow> token" where
  "getRayID this = (case headers this ''CF-RAY'' of None \<Rightarrow> Undefined | Some v \<Rightarrow> v)"

definition getRailgunMetaData :: "Request \<Rightarrow> metadata option" where
  "getRailgunMetaData this = railgunMetaData this"

definition getServerIP :: "Request \<Rightarrow> token" where
  "getServerIP this = ip (details this)"

text \<open>\<^verbatim>\<open>isv6IP\<close> calls \<^verbatim>\<open>indexOf\<close> on the ip: on \<^verbatim>\<open>undefined\<close> the call raises.\<close>

definition isv6IP :: "Request \<Rightarrow> error + bool" where
  "isv6IP this =
     (case getServerIP this of
        Undefined \<Rightarrow> Inl TypeError
      | Str s \<Rightarrow> Inr (indexOf s '':'' \<noteq> - 1))"

definition getPageActionPath :: "Request \<Rightarrow> error + string" where
  "getPageActionPath this =
     (let iconPath = ''images/claire-3-'';
          parts1 = (if servedByCloudFlare this then [''on''] else [''off'']);
          parts2 = (if truthy (servedOverSPDY this) then parts1 @ [''spdy''] else parts1)
      in case isv6IP this of
           Inl e \<Rightarrow> Inl e
         | Inr v6 \<Rightarrow>
             let parts3 = (if v6 then parts2 @ [''ipv6''] else parts2);
                 iconPathParts = (if servedByRailgun this then parts3 @ [''rg''] else parts3)
             in Inr (iconPath @ join iconPathParts ''-'' @ ''.png''))"

definition setSPDYStatus :: "jsval \<Rightarrow> Request \<Rightarrow> Request" where
  "setSPDYStatus status this = this\<lparr>hasSPDYStatus := True, SPDY := status\<rparr>"

text \<open>
  Reading a property of a Request by name, as \<^verbatim>\<open>request.spdy\<close> does. The
  object has the fields the constructor and the setters assign and inherits
  the methods of its prototype chain; an object or a function reads as
  \<open>JObject\<close>, any other name as \<^verbatim>\<open>undefined\<close>. Names are case sensitive.
\<close>

definition prototype_names :: "string list" where
  "prototype_names =
     [''preProcessHeaders'', ''processRailgunHeader'', ''querySPDYStatusAndSetIcon'',
      ''servedByCloudFlare'', ''servedByRailgun'', ''servedOverSPDY'',
      ''ServedFromBrowserCache'', ''getRayID'', ''getTabID'', ''getRequestURL'',
      ''getRailgunMetaData'', ''getServerIP'', ''isv6IP'', ''getPageActionPath'',
      ''setSPDYStatus'', ''setPageActionIconAndPopup'', ''logToConsole'',
      ''constructor'', ''hasOwnProperty'', ''isPrototypeOf'', ''propertyIsEnumerable'',
      ''toLocaleString'', ''toString'', ''valueOf'', ''__proto__'',
      ''__defineGetter__'', ''__defineSetter__'', ''__lookupGetter__'', ''__lookupSetter__'']"

definition property :: "Request \<Rightarrow> string \<Rightarrow> jsval" where
  "property this key =
     (if key = ''SPDY'' then SPDY this
      else if key = ''hasSPDYStatus'' then JBool (hasSPDYStatus this)
      else if key = ''railgunMetaData'' then
        (case railgunMetaData this of None \<Rightarrow> JUndefined | Some md \<Rightarrow> JObject)
      else if key = ''headersRaw'' then
        (case headersRaw this of None \<Rightarrow> JUndefined | Some raw \<Rightarrow> JObject)
      else if key = ''details'' \<or> key = ''headers'' then JObject
      else if key \<in> set prototype_names then JObject
      else JUndefined)"

section \<open>The registry, the host and the listeners\<close>

text \<open>
  \<^verbatim>\<open>requests\<close> maps a tab id to a Request object. Objects live in a heap
  and the registry holds references (positions in the heap), so that moving
  an entry to another tab id moves the reference and copies nothing.
  The calls the file makes to the platform are recorded in the order they are
  issued, and so are the lines written to the console.
\<close>

datatype host_call =
    SendMessage int string
  | SetIcon int string
  | SetPopup int string
  | Show int
  | SendResponse

datatype log_arg = LString string | LToken token | LInt int | LDetails request_details

datatype completion = Returned | Threw error

record state =
  requests :: "int \<rightharpoonup> nat"
  heap :: "Request list"
  localStorage :: "string \<rightharpoonup> string"
  console :: "log_arg list list"
  calls :: "host_call list"

definition console_log :: "log_arg list \<Rightarrow> state \<Rightarrow> state" where
  "console_log args st = st\<lparr>console := console st @ [args]\<rparr>"

definition call :: "host_call \<Rightarrow> state \<Rightarrow> state" where
  "call c st = st\<lparr>calls := calls st @ [c]\<rparr>"

text \<open>
  \<^verbatim>\<open>requests[tabId]\<close>: the reference stored for the tab and the object it
  points to, or nothing (\<^verbatim>\<open>undefined\<close>) when the tab has no entry. The
  listeners only store references of objects they have allocated (predicate
  \<open>allocated\<close> below); a reference outside the heap reads as no entry.
\<close>

definition lookup :: "state \<Rightarrow> int \<Rightarrow> (nat \<times> Request) option" where
  "lookup st t =
     (case requests st t of
        None \<Rightarrow> None
      | Some a \<Rightarrow> if a < length (heap st) then Some (a, heap st ! a) else None)"

definition logToConsole :: "Request \<Rightarrow> state \<Rightarrow> completion \<times> state" where
  "logToConsole this st =
     (if localStorage st ''debug_logging'' \<noteq> Some ''yes'' then (Returned, st)
      else
        let cf = servedByCloudFlare this;
            st1 = console_log [LString [CHR 0x0A]] st;
            st2 = console_log [LString (url (details this)), LToken (ip (details this)),
                               LString (''CF - '' @ (if cf then ''true'' else ''false''))] st1;
            st3 = console_log [LString ''Request - '', LDetails (details this)] st2;
            st4 = (if cf then console_log [LString ''Ray ID - '', LToken (getRayID this)] st3
                   else st3)
        in if servedByRailgun this then
             (case getRailgunMetaData this of
                None \<Rightarrow> (Threw TypeError, st4)
              | Some md \<Rightarrow>
                  (case messages md of
                     None \<Rightarrow> (Threw TypeError, st4)
                   | Some msgs \<Rightarrow>
                       (Returned,
                        console_log [LString ''Railgun - '',
                                     LToken (case id' md of None \<Rightarrow> Undefined | Some t \<Rightarrow> t),
                                     LString (join msgs ''; '')] st4)))
           else (Returned, st4))"

text \<open>
  \<^verbatim>\<open>processCompletedRequest\<close>: the new object is stored under the tab id of
  the details before it is logged, so the entry stays when logging raises.
\<close>

definition processCompletedRequest :: "request_details \<Rightarrow> state \<Rightarrow> completion \<times> state" where
  "processCompletedRequest d st =
     (case new_Request d of
        Inl e \<Rightarrow> (Threw e, st)
      | Inr request \<Rightarrow>
          logToConsole request
            (st\<lparr>requests := (requests st)(tabId d \<mapsto> length (heap st)),
                heap := heap st @ [request]\<rparr>))"

definition onReplaced :: "int \<Rightarrow> int \<Rightarrow> state \<Rightarrow> state" where
  "onReplaced addedTabId removedTabId st =
     (case requests st removedTabId of
        Some a \<Rightarrow>
          st\<lparr>requests := ((requests st)(addedTabId \<mapsto> a))(removedTabId := None)\<rparr>
      | None \<Rightarrow>
          console_log [LString ''could not find an entry in requests for '', LInt removedTabId] st)"

definition onRemoved :: "int \<Rightarrow> state \<Rightarrow> state" where
  "onRemoved t st = st\<lparr>requests := (requests st)(t := None)\<rparr>"

text \<open>
  \<^verbatim>\<open>setPageActionIconAndPopup\<close> computes the path and asks the host to set
  the icon; the function it hands to \<^verbatim>\<open>setIcon\<close> runs when the host calls it
  back and then sets the popup and shows the page action (inside a \<^verbatim>\<open>try\<close>,
  again for a host that rejects the calls).
\<close>

definition setPageActionIconAndPopup :: "Request \<Rightarrow> state \<Rightarrow> completion \<times> state" where
  "setPageActionIconAndPopup this st =
     (case getPageActionPath this of
        Inl e \<Rightarrow> (Threw e, st)
      | Inr iconPath \<Rightarrow> (Returned, call (SetIcon (tabId (details this)) iconPath) st))"

definition setIcon_callback :: "int \<Rightarrow> state \<Rightarrow> state" where
  "setIcon_callback tabID st =
     call (Show tabID) (call (SetPopup tabID ''page_action_popup.html'') st)"

text \<open>
  \<^verbatim>\<open>querySPDYStatusAndSetIcon\<close>: with the status known the icon is set from
  the stored value, otherwise the content script of the record's tab is asked.
  The answer arrives later, as a call of \<open>cs_message_callback\<close> with the tab id
  the query captured. The \<^verbatim>\<open>try\<close> around \<^verbatim>\<open>sendMessage\<close> is for a host that
  rejects the call; here the host accepts it.
\<close>

definition querySPDYStatusAndSetIcon :: "Request \<Rightarrow> state \<Rightarrow> completion \<times> state" where
  "querySPDYStatusAndSetIcon this st =
     (if hasSPDYStatus this then setPageActionIconAndPopup this st
      else (Returned, call (SendMessage (tabId (details this)) ''check_spdy_status'') st))"

text \<open>
  What the content script answers: nothing (\<^verbatim>\<open>undefined\<close>), or an object,
  given by the value of its \<^verbatim>\<open>spdy\<close> property.
\<close>

datatype response = NoResponse | Response jsval

definition cs_message_callback :: "int \<Rightarrow> response \<Rightarrow> state \<Rightarrow> completion \<times> state" where
  "cs_message_callback tabID cs_msg_response st =
     (case cs_msg_response of
        NoResponse \<Rightarrow> (Returned, st)
      | Response spdy_value \<Rightarrow>
          (case lookup st tabID of
             None \<Rightarrow> (Threw TypeError, st)
           | Some (a, request) \<Rightarrow>
               let request' = request\<lparr>SPDY := spdy_value\<rparr>
               in setPageActionIconAndPopup request' (st\<lparr>heap := (heap st)[a := request']\<rparr>)))"

definition onDOMContentLoaded :: "navigation_details \<Rightarrow> state \<Rightarrow> completion \<times> state" where
  "onDOMContentLoaded d st =
     (if frameId d > 0 then (Returned, st)
      else case lookup st (tabId d) of
             Some (a, request) \<Rightarrow> querySPDYStatusAndSetIcon request st
           | None \<Rightarrow> (Returned, st))"

text \<open>
  The message listener. Its first parameter is named \<^verbatim>\<open>request\<close> and its
  first statement is \<^verbatim>\<open>var request = requests[sender.tab.id]\<close>: the
  declaration names the parameter again, so from there on \<^verbatim>\<open>request\<close> is the
  registry's object and the message is out of reach. \<^verbatim>\<open>request.spdy\<close> is
  therefore read from the Request object. A sender without a tab makes
  \<^verbatim>\<open>sender.tab.id\<close> raise.
\<close>

record message =
  spdy :: jsval

record sender =
  tab_id :: "int option"

definition onMessage :: "message \<Rightarrow> sender \<Rightarrow> state \<Rightarrow> completion \<times> state" where
  "onMessage msg sndr st =
     (case tab_id sndr of
        None \<Rightarrow> (Threw TypeError, st)
      | Some t \<Rightarrow>
          let st1 = (case lookup st t of
                       None \<Rightarrow> st
                     | Some (a, request) \<Rightarrow>
                         st\<lparr>heap := (heap st)[a := setSPDYStatus (property request ''spdy'') request]\<rparr>)
          in (Returned, call SendResponse st1))"

section \<open>Notions of the specification\<close>

text \<open>
  The specification's composite key, in its own words: \<^verbatim>\<open>on\<close> if
  known-edge-provider else \<^verbatim>\<open>off\<close>; then \<^verbatim>\<open>spdy\<close> if modern transport is
  active; then \<^verbatim>\<open>ipv6\<close> if IPv6; then \<^verbatim>\<open>rg\<close> if the accelerator is present;
  joined with a dash.
\<close>

definition spec_icon_variant :: "bool \<Rightarrow> bool \<Rightarrow> bool \<Rightarrow> bool \<Rightarrow> string" where
  "spec_icon_variant edge transport ipv6 accelerator =
     join ([if edge then ''on'' else ''off'']
           @ (if transport then [''spdy''] else [])
           @ (if ipv6 then [''ipv6''] else [])
           @ (if accelerator then [''rg''] else [])) ''-''"

text \<open>
  A base-10 integer, as the specification means it where it speaks of a token
  that is non-numeric where an integer is expected: an optional sign and one or
  more decimal digits, and nothing else.
\<close>

definition spec_base10_integer :: "string \<Rightarrow> bool" where
  "spec_base10_integer s =
     (let t = (if s \<noteq> [] \<and> (hd s = CHR ''-'' \<or> hd s = CHR ''+'') then tl s else s)
      in t \<noteq> [] \<and> list_all is_digit t)"

section \<open>A run of the extension\<close>

text \<open>
  The state the extension starts in, the completion details of a request in
  tab 1 that Cloudflare served over IPv6 through Railgun, the Request the
  constructor builds from them, and the state after the request completed.
\<close>

definition initial_state :: state where
  "initial_state =
     \<lparr>requests = Map.empty, heap = [], localStorage = Map.empty, console = [], calls = []\<rparr>"

definition example_headers :: "header list" where
  "example_headers =
     [\<lparr>header_name = ''Server'', header_value = Str ''cloudflare-nginx''\<rparr>,
      \<lparr>header_name = ''CF-Railgun'', header_value = Str ''e95b1c46e0 0005 normal 9878''\<rparr>]"

definition example_details :: request_details where
  "example_details =
     \<lparr>tabId = 1, url = ''https://example.com/'', ip = Str ''2001:db8::1'', fromCache = False,
      responseHeaders = Some example_headers\<rparr>"

definition example_request :: Request where
  "example_request =
     \<lparr>details = example_details, headersRaw = Some example_headers,
      headers = [''SERVER'' \<mapsto> Str ''cloudflare-nginx'',
                 ''CF-RAILGUN'' \<mapsto> Str ''e95b1c46e0 0005 normal 9878''],
      hasSPDYStatus = False,
      railgunMetaData =
        Some (processRailgunHeader (Str ''e95b1c46e0 0005 normal 9878'')),
      SPDY = JUndefined\<rparr>"

definition example_state :: state where
  "example_state =
     \<lparr>requests = [1 \<mapsto> 0], heap = [example_request], localStorage = Map.empty,
      console = [], calls = []\<rparr>"

text \<open>
  A request whose completion details carry no ip, the Request built from it,
  and a Request for a plain origin: IPv4, no headers of interest.
\<close>

definition cached_details :: request_details where
  "cached_details = example_details\<lparr>ip := Undefined\<rparr>"

definition cached_request :: Request where
  "cached_request = example_request\<lparr>details := cached_details\<rparr>"

definition plain_request :: Request where
  "plain_request =
     \<lparr>details = \<lparr>tabId = 2, url = ''http://example.org/'', ip = Str ''192.0.2.7'',
                 fromCache = False, responseHeaders = Some []\<rparr>,
      headersRaw = Some [], headers = Map.empty, hasSPDYStatus = False,
      railgunMetaData = None, SPDY = JUndefined\<rparr>"


text \<open>Every reference the registry holds points to an object of the heap.\<close>

definition allocated :: "state \<Rightarrow> bool" where
  "allocated st = (\<forall>t a. requests st t = Some a \<longrightarrow> a < length (heap st))"

section \<open>Properties of the string primitives\<close>

text \<open>
  \<open>indexOf\<close> finds a pattern exactly when the string contains it, and
  \<open>split\<close> cuts at every separator and nowhere else: joining the pieces
  with the separator gives the string back, and no piece holds a separator.
\<close>

lemma indexOf_from_found:
  "indexOf_from s pat i \<noteq> - 1 \<longleftrightarrow> (\<exists>u v. s = u @ pat @ v)"
proof (induction s arbitrary: i)
  case Nil
  then show ?case by auto
next
  case (Cons c cs)
  show ?case
  proof (cases "prefix pat (c # cs)")
    case True
    then obtain v where "c # cs = pat @ v" by (auto simp: prefix_def)
    then have "c # cs = [] @ pat @ v" by simp
    then have "\<exists>u v. c # cs = u @ pat @ v" by blast
    with True show ?thesis by simp
  next
    case False
    have "(\<exists>u v. c # cs = u @ pat @ v) \<longleftrightarrow> (\<exists>u v. cs = u @ pat @ v)"
    proof
      assume "\<exists>u v. c # cs = u @ pat @ v"
      then obtain u v where uv: "c # cs = u @ pat @ v" by blast
      show "\<exists>u v. cs = u @ pat @ v"
      proof (cases u)
        case Nil
        with uv have "prefix pat (c # cs)" by (simp add: prefix_def)
        with False show ?thesis by simp
      next
        case (Cons x u')
        with uv have "cs = u' @ pat @ v" by simp
        then show ?thesis by blast
      qed
    next
      assume "\<exists>u v. cs = u @ pat @ v"
      then obtain u v where "cs = u @ pat @ v" by blast
      then have "c # cs = (c # u) @ pat @ v" by simp
      then show "\<exists>u v. c # cs = u @ pat @ v" by blast
    qed
    with False Cons.IH [of "Suc i"] show ?thesis by simp
  qed
qed

lemma indexOf_found: "indexOf s pat \<noteq> - 1 \<longleftrightarrow> (\<exists>u v. s = u @ pat @ v)"
  by (simp add: indexOf_def indexOf_from_found)

lemma indexOf_char: "indexOf s [c] \<noteq> - 1 \<longleftrightarrow> c \<in> set s"
  by (simp add: indexOf_found in_set_conv_decomp)

lemma split_from_nonempty: "split_from sep cur s \<noteq> []"
  by (induction s arbitrary: cur) auto

lemma split_nonempty: "split s sep \<noteq> []"
  by (simp add: split_def split_from_nonempty)

lemma element_0_split: "element (split s sep) 0 = Str (hd (split s sep))"
  using split_nonempty [of s sep] by (cases "split s sep") (auto simp: element_def)

lemma join_split_from: "join (split_from sep cur s) [sep] = cur @ s"
proof (induction s arbitrary: cur)
  case Nil
  then show ?case by simp
next
  case (Cons c cs)
  show ?case
  proof (cases "c = sep")
    case True
    obtain p ps where "split_from sep [] cs = p # ps"
      using split_from_nonempty [of sep "[]" cs] by (cases "split_from sep [] cs") auto
    with True Cons.IH [of "[]"] show ?thesis by simp
  next
    case False
    with Cons.IH [of "cur @ [c]"] show ?thesis by simp
  qed
qed

lemma join_split: "join (split s sep) [sep] = s"
  by (simp add: split_def join_split_from)

lemma split_from_no_sep:
  "sep \<notin> set cur \<Longrightarrow> p \<in> set (split_from sep cur s) \<Longrightarrow> sep \<notin> set p"
proof (induction s arbitrary: cur)
  case Nil
  then show ?case by simp
next
  case (Cons c cs)
  show ?case
  proof (cases "c = sep")
    case True
    with Cons.prems have "p = cur \<or> p \<in> set (split_from sep [] cs)" by simp
    then show ?thesis
    proof
      assume "p = cur"
      with Cons.prems show ?thesis by simp
    next
      assume "p \<in> set (split_from sep [] cs)"
      with Cons.IH [of "[]"] show ?thesis by simp
    qed
  next
    case False
    with Cons.prems have "p \<in> set (split_from sep (cur @ [c]) cs)" by simp
    moreover from False Cons.prems have "sep \<notin> set (cur @ [c])" by auto
    ultimately show ?thesis using Cons.IH [of "cur @ [c]"] by blast
  qed
qed

lemma split_no_sep: "p \<in> set (split s sep) \<Longrightarrow> sep \<notin> set p"
  using split_from_no_sep [of sep "[]" p s] by (simp add: split_def)

lemma toUpperCase_examples:
  "toUpperCase ''Server'' = Some ''SERVER''"
  "toUpperCase ''cf-railgun'' = Some ''CF-RAILGUN''"
  "toUpperCase [CHR 0xE9] = Some [CHR 0xC9]"
  "toUpperCase [CHR 0xDF] = Some ''SS''"
  "toUpperCase [CHR 0xF7] = Some [CHR 0xF7]"
  "toUpperCase [CHR 0xB5] = None"
  by (simp_all add: upper_char_def latin1_small_def latin1_capital_def)

lemma decode_flags_filter:
  "decode_flags b fs msgs =
     msgs @ map (\<lambda>(k, p, m). m) (filter (\<lambda>(k, p, m). bitand b (Fin p) \<noteq> 0) fs)"
  by (induction fs arbitrary: msgs) auto

section \<open>The number primitives on some tokens\<close>

text \<open>
  \<^verbatim>\<open>100 - '0.02'\<close> is the double nearest to 99.98 and prints as
  \<^verbatim>\<open>99.98\<close>; \<^verbatim>\<open>100 - '30'\<close> prints as \<^verbatim>\<open>70\<close>; \<^verbatim>\<open>100 - '99.99'\<close> shows
  the rounding of \<^verbatim>\<open>99.99\<close> to a double and prints as
  \<^verbatim>\<open>0.010000000000005116\<close>; text and a missing token give \<^verbatim>\<open>NaN\<close>. Each
  value is computed step by step: the literal, its double, the difference, the
  candidates for the shortest decimal, the layout. \<^verbatim>\<open>parseInt\<close> reads leading
  digits and rounds to a double.
\<close>

lemma number_0_02: "ToNumber (Str ''0.02'') = DFin False 5764607523034235 58"
proof -
  have lit: "StrUnsignedDecimalLiteral ''0.02'' = Some (2, - 2)"
    by (simp add: StrUnsignedDecimalLiteral_def is_digit_def Let_def)
  have fl_lit: "floor_log2 2 100 = - 6"
    by (simp add: floor_log2_def bit_length.simps Let_def)
  have rd_lit: "round_double 2 100 = Some (5764607523034235, 58)"
    by (simp add: round_double_def fl_lit Let_def)
  show ?thesis
    by (simp add: ToNumber_def StringToNumber_def StrWhiteSpaceChar_def
        NonDecimalIntegerLiteral_def lit scaled_def to_number_def rd_lit Let_def)
qed

lemma difference_0_02:
  "subtract (DFin False 100 0) (DFin False 5764607523034235 58) = DFin False 7035467042882847 46"
proof -
  have fl_diff: "floor_log2 28817273007648140165 288230376151711744 = 6"
    by (simp add: floor_log2_def bit_length.simps Let_def)
  have rd_diff: "round_double 28817273007648140165 288230376151711744 = Some (7035467042882847, 46)"
    by (simp add: round_double_def fl_diff Let_def)
  show ?thesis by (simp add: to_number_def rd_diff)
qed

lemma candidate_99_98_1: "candidate 7035467042882847 (2 ^ 46) 2 1 = None"
proof -
  have fl_lo: "floor_log2 90 (Suc 0) = 6"
    by (simp add: floor_log2_def bit_length.simps Let_def)
  have rd_lo: "round_double 90 (Suc 0) = Some (6333186975989760, 46)"
    by (simp add: round_double_def fl_lo Let_def)
  have fl_hi: "floor_log2 100 (Suc 0) = 6"
    by (simp add: floor_log2_def bit_length.simps Let_def)
  have rd_hi: "round_double 100 (Suc 0) = Some (7036874417766400, 46)"
    by (simp add: round_double_def fl_hi Let_def)
  show ?thesis
    by (simp add: candidate_def scaled_def rd_lo rd_hi Let_def)
qed

lemma candidate_99_98_2: "candidate 7035467042882847 (2 ^ 46) 2 2 = None"
proof -
  have fl_lo: "floor_log2 99 (Suc 0) = 6"
    by (simp add: floor_log2_def bit_length.simps Let_def)
  have rd_lo: "round_double 99 (Suc 0) = Some (6966505673588736, 46)"
    by (simp add: round_double_def fl_lo Let_def)
  have fl_hi: "floor_log2 100 (Suc 0) = 6"
    by (simp add: floor_log2_def bit_length.simps Let_def)
  have rd_hi: "round_double 100 (Suc 0) = Some (7036874417766400, 46)"
    by (simp add: round_double_def fl_hi Let_def)
  show ?thesis
    by (simp add: candidate_def scaled_def rd_lo rd_hi Let_def)
qed

lemma candidate_99_98_3: "candidate 7035467042882847 (2 ^ 46) 2 3 = None"
proof -
  have fl_lo: "floor_log2 999 10 = 6"
    by (simp add: floor_log2_def bit_length.simps Let_def)
  have rd_lo: "round_double 999 10 = Some (7029837543348634, 46)"
    by (simp add: round_double_def fl_lo Let_def)
  have fl_hi: "floor_log2 1000 10 = 6"
    by (simp add: floor_log2_def bit_length.simps Let_def)
  have rd_hi: "round_double 1000 10 = Some (7036874417766400, 46)"
    by (simp add: round_double_def fl_hi Let_def)
  show ?thesis
    by (simp add: candidate_def scaled_def rd_lo rd_hi Let_def)
qed

lemma candidate_99_98_4: "candidate 7035467042882847 (2 ^ 46) 2 4 = Some 9998"
proof -
  have fl_lo: "floor_log2 9998 100 = 6"
    by (simp add: floor_log2_def bit_length.simps Let_def)
  have rd_lo: "round_double 9998 100 = Some (7035467042882847, 46)"
    by (simp add: round_double_def fl_lo Let_def)
  have fl_hi: "floor_log2 9999 100 = 6"
    by (simp add: floor_log2_def bit_length.simps Let_def)
  have rd_hi: "round_double 9999 100 = Some (7036170730324623, 46)"
    by (simp add: round_double_def fl_hi Let_def)
  show ?thesis
    by (simp add: candidate_def scaled_def rd_lo rd_hi Let_def)
qed

lemma string_99_98: "Number_toString (DFin False 7035467042882847 46) = ''99.98''"
proof -
  have lg: "floor_log10 7035467042882847 (2 ^ 46) = 1"
    by (simp add: floor_log10_def decimal_length.simps Let_def)
  have n0: "floor_log10 7035467042882847 (2 ^ 46) + 1 = 2" unfolding lg by simp
  have sh: "shortest 7035467042882847 (2 ^ 46) 2 [1, 2, 3, 4, 5, 6, 7, 8, 9, 10, 11, 12, 13, 14, 15, 16, 17] =
              (9998, 4)"
    by (simp only: shortest.simps option.case
        candidate_99_98_1 candidate_99_98_2 candidate_99_98_3 candidate_99_98_4)
  have dl: "decimal_length 9998 = 4" by (simp add: decimal_length.simps)
  have ds: "digits_of 9998 = ''9998''" by (simp add: digits_of.simps)
  have "positive_toString 7035467042882847 (2 ^ 46) = ''99.98''"
    by (simp only: positive_toString_def n0 sh Let_def prod.case)
       (simp add: dl ds strip_zeros_def)
  then show ?thesis by (simp add: Number_toString_def)
qed

lemma minus_from_100_0_02: "minus_from_100 (Str ''0.02'') = ''99.98''"
  by (simp only: minus_from_100_def number_0_02 difference_0_02 string_99_98)






lemma number_99_99: "ToNumber (Str ''99.99'') = DFin False 7036170730324623 46"
proof -
  have lit: "StrUnsignedDecimalLiteral ''99.99'' = Some (9999, - 2)"
    by (simp add: StrUnsignedDecimalLiteral_def is_digit_def Let_def)
  have fl_lit: "floor_log2 9999 100 = 6"
    by (simp add: floor_log2_def bit_length.simps Let_def)
  have rd_lit: "round_double 9999 100 = Some (7036170730324623, 46)"
    by (simp add: round_double_def fl_lit Let_def)
  show ?thesis
    by (simp add: ToNumber_def StringToNumber_def StrWhiteSpaceChar_def
        NonDecimalIntegerLiteral_def lit scaled_def to_number_def rd_lit Let_def)
qed

lemma difference_99_99:
  "subtract (DFin False 100 0) (DFin False 7036170730324623 46) = DFin False 5764607523037184 59"
proof -
  have fl_diff: "floor_log2 703687441777 70368744177664 = - 7"
    by (simp add: floor_log2_def bit_length.simps Let_def)
  have rd_diff: "round_double 703687441777 70368744177664 = Some (5764607523037184, 59)"
    by (simp add: round_double_def fl_diff Let_def)
  show ?thesis by (simp add: to_number_def rd_diff)
qed

lemma candidate_0_01_1: "candidate 5764607523037184 (2 ^ 59) (- 1) 1 = None"
proof -
  have fl_lo: "floor_log2 (Suc 0) 100 = - 7"
    by (simp add: floor_log2_def bit_length.simps Let_def)
  have rd_lo: "round_double (Suc 0) 100 = Some (5764607523034235, 59)"
    by (simp add: round_double_def fl_lo Let_def)
  have fl_hi: "floor_log2 (Suc (Suc 0)) 100 = - 6"
    by (simp add: floor_log2_def bit_length.simps Let_def)
  have rd_hi: "round_double (Suc (Suc 0)) 100 = Some (5764607523034235, 58)"
    by (simp add: round_double_def fl_hi Let_def)
  show ?thesis
    by (simp add: candidate_def scaled_def rd_lo rd_hi Let_def)
qed

lemma candidate_0_01_2: "candidate 5764607523037184 (2 ^ 59) (- 1) 2 = None"
proof -
  have fl_lo: "floor_log2 10 1000 = - 7"
    by (simp add: floor_log2_def bit_length.simps Let_def)
  have rd_lo: "round_double 10 1000 = Some (5764607523034235, 59)"
    by (simp add: round_double_def fl_lo Let_def)
  have fl_hi: "floor_log2 11 1000 = - 7"
    by (simp add: floor_log2_def bit_length.simps Let_def)
  have rd_hi: "round_double 11 1000 = Some (6341068275337658, 59)"
    by (simp add: round_double_def fl_hi Let_def)
  show ?thesis
    by (simp add: candidate_def scaled_def rd_lo rd_hi Let_def)
qed

lemma candidate_0_01_3: "candidate 5764607523037184 (2 ^ 59) (- 1) 3 = None"
proof -
  have fl_lo: "floor_log2 100 10000 = - 7"
    by (simp add: floor_log2_def bit_length.simps Let_def)
  have rd_lo: "round_double 100 10000 = Some (5764607523034235, 59)"
    by (simp add: round_double_def fl_lo Let_def)
  have fl_hi: "floor_log2 101 10000 = - 7"
    by (simp add: floor_log2_def bit_length.simps Let_def)
  have rd_hi: "round_double 101 10000 = Some (5822253598264577, 59)"
    by (simp add: round_double_def fl_hi Let_def)
  show ?thesis
    by (simp add: candidate_def scaled_def rd_lo rd_hi Let_def)
qed

lemma candidate_0_01_4: "candidate 5764607523037184 (2 ^ 59) (- 1) 4 = None"
proof -
  have fl_lo: "floor_log2 1000 100000 = - 7"
    by (simp add: floor_log2_def bit_length.simps Let_def)
  have rd_lo: "round_double 1000 100000 = Some (5764607523034235, 59)"
    by (simp add: round_double_def fl_lo Let_def)
  have fl_hi: "floor_log2 1001 100000 = - 7"
    by (simp add: floor_log2_def bit_length.simps Let_def)
  have rd_hi: "round_double 1001 100000 = Some (5770372130557269, 59)"
    by (simp add: round_double_def fl_hi Let_def)
  show ?thesis
    by (simp add: candidate_def scaled_def rd_lo rd_hi Let_def)
qed

lemma candidate_0_01_5: "candidate 5764607523037184 (2 ^ 59) (- 1) 5 = None"
proof -
  have fl_lo: "floor_log2 10000 1000000 = - 7"
    by (simp add: floor_log2_def bit_length.simps Let_def)
  have rd_lo: "round_double 10000 1000000 = Some (5764607523034235, 59)"
    by (simp add: round_double_def fl_lo Let_def)
  have fl_hi: "floor_log2 10001 1000000 = - 7"
    by (simp add: floor_log2_def bit_length.simps Let_def)
  have rd_hi: "round_double 10001 1000000 = Some (5765183983786538, 59)"
    by (simp add: round_double_def fl_hi Let_def)
  show ?thesis
    by (simp add: candidate_def scaled_def rd_lo rd_hi Let_def)
qed

lemma candidate_0_01_6: "candidate 5764607523037184 (2 ^ 59) (- 1) 6 = None"
proof -
  have fl_lo: "floor_log2 100000 10000000 = - 7"
    by (simp add: floor_log2_def bit_length.simps Let_def)
  have rd_lo: "round_double 100000 10000000 = Some (5764607523034235, 59)"
    by (simp add: round_double_def fl_lo Let_def)
  have fl_hi: "floor_log2 100001 10000000 = - 7"
    by (simp add: floor_log2_def bit_length.simps Let_def)
  have rd_hi: "round_double 100001 10000000 = Some (5764665169109465, 59)"
    by (simp add: round_double_def fl_hi Let_def)
  show ?thesis
    by (simp add: candidate_def scaled_def rd_lo rd_hi Let_def)
qed

lemma candidate_0_01_7: "candidate 5764607523037184 (2 ^ 59) (- 1) 7 = None"
proof -
  have fl_lo: "floor_log2 1000000 100000000 = - 7"
    by (simp add: floor_log2_def bit_length.simps Let_def)
  have rd_lo: "round_double 1000000 100000000 = Some (5764607523034235, 59)"
    by (simp add: round_double_def fl_lo Let_def)
  have fl_hi: "floor_log2 1000001 100000000 = - 7"
    by (simp add: floor_log2_def bit_length.simps Let_def)
  have rd_hi: "round_double 1000001 100000000 = Some (5764613287641758, 59)"
    by (simp add: round_double_def fl_hi Let_def)
  show ?thesis
    by (simp add: candidate_def scaled_def rd_lo rd_hi Let_def)
qed

lemma candidate_0_01_8: "candidate 5764607523037184 (2 ^ 59) (- 1) 8 = None"
proof -
  have fl_lo: "floor_log2 10000000 1000000000 = - 7"
    by (simp add: floor_log2_def bit_length.simps Let_def)
  have rd_lo: "round_double 10000000 1000000000 = Some (5764607523034235, 59)"
    by (simp add: round_double_def fl_lo Let_def)
  have fl_hi: "floor_log2 10000001 1000000000 = - 7"
    by (simp add: floor_log2_def bit_length.simps Let_def)
  have rd_hi: "round_double 10000001 1000000000 = Some (5764608099494987, 59)"
    by (simp add: round_double_def fl_hi Let_def)
  show ?thesis
    by (simp add: candidate_def scaled_def rd_lo rd_hi Let_def)
qed

lemma candidate_0_01_9: "candidate 5764607523037184 (2 ^ 59) (- 1) 9 = None"
proof -
  have fl_lo: "floor_log2 100000000 10000000000 = - 7"
    by (simp add: floor_log2_def bit_length.simps Let_def)
  have rd_lo: "round_double 100000000 10000000000 = Some (5764607523034235, 59)"
    by (simp add: round_double_def fl_lo Let_def)
  have fl_hi: "floor_log2 100000001 10000000000 = - 7"
    by (simp add: floor_log2_def bit_length.simps Let_def)
  have rd_hi: "round_double 100000001 10000000000 = Some (5764607580680310, 59)"
    by (simp add: round_double_def fl_hi Let_def)
  show ?thesis
    by (simp add: candidate_def scaled_def rd_lo rd_hi Let_def)
qed

lemma candidate_0_01_10: "candidate 5764607523037184 (2 ^ 59) (- 1) 10 = None"
proof -
  have fl_lo: "floor_log2 1000000000 100000000000 = - 7"
    by (simp add: floor_log2_def bit_length.simps Let_def)
  have rd_lo: "round_double 1000000000 100000000000 = Some (5764607523034235, 59)"
    by (simp add: round_double_def fl_lo Let_def)
  have fl_hi: "floor_log2 1000000001 100000000000 = - 7"
    by (simp add: floor_log2_def bit_length.simps Let_def)
  have rd_hi: "round_double 1000000001 100000000000 = Some (5764607528798842, 59)"
    by (simp add: round_double_def fl_hi Let_def)
  show ?thesis
    by (simp add: candidate_def scaled_def rd_lo rd_hi Let_def)
qed

lemma candidate_0_01_11: "candidate 5764607523037184 (2 ^ 59) (- 1) 11 = None"
proof -
  have fl_lo: "floor_log2 10000000000 1000000000000 = - 7"
    by (simp add: floor_log2_def bit_length.simps Let_def)
  have rd_lo: "round_double 10000000000 1000000000000 = Some (5764607523034235, 59)"
    by (simp add: round_double_def fl_lo Let_def)
  have fl_hi: "floor_log2 10000000001 1000000000000 = - 7"
    by (simp add: floor_log2_def bit_length.simps Let_def)
  have rd_hi: "round_double 10000000001 1000000000000 = Some (5764607523610696, 59)"
    by (simp add: round_double_def fl_hi Let_def)
  show ?thesis
    by (simp add: candidate_def scaled_def rd_lo rd_hi Let_def)
qed

lemma candidate_0_01_12: "candidate 5764607523037184 (2 ^ 59) (- 1) 12 = None"
proof -
  have fl_lo: "floor_log2 100000000000 10000000000000 = - 7"
    by (simp add: floor_log2_def bit_length.simps Let_def)
  have rd_lo: "round_double 100000000000 10000000000000 = Some (5764607523034235, 59)"
    by (simp add: round_double_def fl_lo Let_def)
  have fl_hi: "floor_log2 100000000001 10000000000000 = - 7"
    by (simp add: floor_log2_def bit_length.simps Let_def)
  have rd_hi: "round_double 100000000001 10000000000000 = Some (5764607523091881, 59)"
    by (simp add: round_double_def fl_hi Let_def)
  show ?thesis
    by (simp add: candidate_def scaled_def rd_lo rd_hi Let_def)
qed

lemma candidate_0_01_13: "candidate 5764607523037184 (2 ^ 59) (- 1) 13 = None"
proof -
  have fl_lo: "floor_log2 1000000000000 100000000000000 = - 7"
    by (simp add: floor_log2_def bit_length.simps Let_def)
  have rd_lo: "round_double 1000000000000 100000000000000 = Some (5764607523034235, 59)"
    by (simp add: round_double_def fl_lo Let_def)
  have fl_hi: "floor_log2 1000000000001 100000000000000 = - 7"
    by (simp add: floor_log2_def bit_length.simps Let_def)
  have rd_hi: "round_double 1000000000001 100000000000000 = Some (5764607523039999, 59)"
    by (simp add: round_double_def fl_hi Let_def)
  show ?thesis
    by (simp add: candidate_def scaled_def rd_lo rd_hi Let_def)
qed

lemma candidate_0_01_14: "candidate 5764607523037184 (2 ^ 59) (- 1) 14 = None"
proof -
  have fl_lo: "floor_log2 10000000000005 1000000000000000 = - 7"
    by (simp add: floor_log2_def bit_length.simps Let_def)
  have rd_lo: "round_double 10000000000005 1000000000000000 = Some (5764607523037117, 59)"
    by (simp add: round_double_def fl_lo Let_def)
  have fl_hi: "floor_log2 10000000000006 1000000000000000 = - 7"
    by (simp add: floor_log2_def bit_length.simps Let_def)
  have rd_hi: "round_double 10000000000006 1000000000000000 = Some (5764607523037694, 59)"
    by (simp add: round_double_def fl_hi Let_def)
  show ?thesis
    by (simp add: candidate_def scaled_def rd_lo rd_hi Let_def)
qed

lemma candidate_0_01_15: "candidate 5764607523037184 (2 ^ 59) (- 1) 15 = None"
proof -
  have fl_lo: "floor_log2 100000000000051 10000000000000000 = - 7"
    by (simp add: floor_log2_def bit_length.simps Let_def)
  have rd_lo: "round_double 100000000000051 10000000000000000 = Some (5764607523037175, 59)"
    by (simp add: round_double_def fl_lo Let_def)
  have fl_hi: "floor_log2 100000000000052 10000000000000000 = - 7"
    by (simp add: floor_log2_def bit_length.simps Let_def)
  have rd_hi: "round_double 100000000000052 10000000000000000 = Some (5764607523037232, 59)"
    by (simp add: round_double_def fl_hi Let_def)
  show ?thesis
    by (simp add: candidate_def scaled_def rd_lo rd_hi Let_def)
qed

lemma candidate_0_01_16: "candidate 5764607523037184 (2 ^ 59) (- 1) 16 = None"
proof -
  have fl_lo: "floor_log2 1000000000000511 100000000000000000 = - 7"
    by (simp add: floor_log2_def bit_length.simps Let_def)
  have rd_lo: "round_double 1000000000000511 100000000000000000 = Some (5764607523037181, 59)"
    by (simp add: round_double_def fl_lo Let_def)
  have fl_hi: "floor_log2 1000000000000512 100000000000000000 = - 7"
    by (simp add: floor_log2_def bit_length.simps Let_def)
  have rd_hi: "round_double 1000000000000512 100000000000000000 = Some (5764607523037186, 59)"
    by (simp add: round_double_def fl_hi Let_def)
  show ?thesis
    by (simp add: candidate_def scaled_def rd_lo rd_hi Let_def)
qed

lemma candidate_0_01_17: "candidate 5764607523037184 (2 ^ 59) (- 1) 17 = Some 10000000000005116"
proof -
  have fl_lo: "floor_log2 10000000000005115 1000000000000000000 = - 7"
    by (simp add: floor_log2_def bit_length.simps Let_def)
  have rd_lo: "round_double 10000000000005115 1000000000000000000 = Some (5764607523037183, 59)"
    by (simp add: round_double_def fl_lo Let_def)
  have fl_hi: "floor_log2 10000000000005116 1000000000000000000 = - 7"
    by (simp add: floor_log2_def bit_length.simps Let_def)
  have rd_hi: "round_double 10000000000005116 1000000000000000000 = Some (5764607523037184, 59)"
    by (simp add: round_double_def fl_hi Let_def)
  show ?thesis
    by (simp add: candidate_def scaled_def rd_lo rd_hi Let_def)
qed

lemma string_0_01: "Number_toString (DFin False 5764607523037184 59) = ''0.010000000000005116''"
proof -
  have lg: "floor_log10 5764607523037184 (2 ^ 59) = - 2"
    by (simp add: floor_log10_def decimal_length.simps Let_def)
  have n0: "floor_log10 5764607523037184 (2 ^ 59) + 1 = - 1" unfolding lg by simp
  have sh: "shortest 5764607523037184 (2 ^ 59) (- 1) [1, 2, 3, 4, 5, 6, 7, 8, 9, 10, 11, 12, 13, 14, 15, 16, 17] =
              (10000000000005116, 17)"
    by (simp only: shortest.simps option.case
        candidate_0_01_1 candidate_0_01_2 candidate_0_01_3 candidate_0_01_4
        candidate_0_01_5 candidate_0_01_6 candidate_0_01_7 candidate_0_01_8
        candidate_0_01_9 candidate_0_01_10 candidate_0_01_11 candidate_0_01_12
        candidate_0_01_13 candidate_0_01_14 candidate_0_01_15 candidate_0_01_16
        candidate_0_01_17)
  have dl: "decimal_length 10000000000005116 = 17" by (simp add: decimal_length.simps)
  have ds: "digits_of 10000000000005116 = ''10000000000005116''" by (simp add: digits_of.simps)
  have "positive_toString 5764607523037184 (2 ^ 59) = ''0.010000000000005116''"
    by (simp only: positive_toString_def n0 sh Let_def prod.case)
       (simp add: dl ds strip_zeros_def)
  then show ?thesis by (simp add: Number_toString_def)
qed

lemma minus_from_100_99_99: "minus_from_100 (Str ''99.99'') = ''0.010000000000005116''"
  by (simp only: minus_from_100_def number_99_99 difference_99_99 string_0_01)

lemma minus_from_100_text: "minus_from_100 (Str ''zz'') = ''NaN''"
  by (simp add: minus_from_100_def Number_toString_def ToNumber_def StringToNumber_def
      StrWhiteSpaceChar_def NonDecimalIntegerLiteral_def StrUnsignedDecimalLiteral_def
      is_digit_def Let_def)

lemma minus_from_100_undefined: "minus_from_100 Undefined = ''NaN''"
  by (simp add: minus_from_100_def Number_toString_def ToNumber_def)

lemma parseInt10_0030: "parseInt10 (Str ''0030'') = Fin 30"
  by (simp add: parseInt10_def is_digit_def StrWhiteSpaceChar_def to_double_def Let_def
      bit_length.simps)

lemma parseInt10_rounds: "parseInt10 (Str ''9007199254740993'') = Fin 9007199254740992"
  by (simp add: parseInt10_def is_digit_def StrWhiteSpaceChar_def to_double_def Let_def
      bit_length.simps)


lemma parseInt10_0005: "parseInt10 (Str ''0005'') = Fin 5"
  by (simp add: parseInt10_def is_digit_def StrWhiteSpaceChar_def to_double_def Let_def
      bit_length.simps)

section \<open>The header decoder\<close>

text \<open>
  Claim C6. For every flags bitset the decoded messages are the messages of
  exactly the flags whose position has a bit in common with the bitset
  (\<^verbatim>\<open>(bitset & position) !== 0\<close>), in the order of the table, which lists the
  seven positions 0x01 to 0x40 in ascending order. Bitset 0x05 gives the
  messages of 0x01 and 0x04 in that order, bitset 0 gives none, bitset 0x7F
  gives all seven, and the \<^verbatim>\<open>messages\<close> the decoder stores are those of the
  \<^verbatim>\<open>flags\<close> it stores.
\<close>

theorem flag_expansion:
  "decode_flags b railgunFlags [] =
     map (\<lambda>(k, p, m). m) (filter (\<lambda>(k, p, m). bitand b (Fin p) \<noteq> 0) railgunFlags)
   \<and> map (\<lambda>(k, p, m). p) railgunFlags = [0x01, 0x02, 0x04, 0x08, 0x10, 0x20, 0x40]
   \<and> decode_flags (Fin 0x05) railgunFlags [] =
       [''map.file used to change IP'', ''Host name change'']
   \<and> decode_flags (Fin 0) railgunFlags [] = []
   \<and> decode_flags (Fin 0x7F) railgunFlags [] =
       [''map.file used to change IP'', ''map.file default IP used'', ''Host name change'',
        ''Existing connection reused'', ''Railgun sender sent dictionary'',
        ''Dictionary found in memcache'', ''Restarted broken origin connection'']
   \<and> (\<exists>n. flags (processRailgunHeader (Str h)) = Some n
          \<and> messages (processRailgunHeader (Str h)) =
              Some (decode_flags n railgunFlags []))"
proof -
  have 1: "decode_flags b railgunFlags [] =
     map (\<lambda>(k, p, m). m) (filter (\<lambda>(k, p, m). bitand b (Fin p) \<noteq> 0) railgunFlags)"
    by (simp add: decode_flags_filter)
  have 2: "map (\<lambda>(k, p, m). p) railgunFlags = [0x01, 0x02, 0x04, 0x08, 0x10, 0x20, 0x40]"
    by (simp add: railgunFlags_def)
  have 3: "decode_flags (Fin 0x05) railgunFlags [] =
       [''map.file used to change IP'', ''Host name change'']"
    by (simp add: railgunFlags_def bitand_def ToInt32_def)
  have 4: "decode_flags (Fin 0) railgunFlags [] = []"
    by (simp add: railgunFlags_def bitand_def ToInt32_def)
  have 5: "decode_flags (Fin 0x7F) railgunFlags [] =
       [''map.file used to change IP'', ''map.file default IP used'', ''Host name change'',
        ''Existing connection reused'', ''Railgun sender sent dictionary'',
        ''Dictionary found in memcache'', ''Restarted broken origin connection'']"
    by (simp add: railgunFlags_def bitand_def ToInt32_def)
  have 6: "\<exists>n. flags (processRailgunHeader (Str h)) = Some n
          \<and> messages (processRailgunHeader (Str h)) =
              Some (decode_flags n railgunFlags [])"
    by (simp add: processRailgunHeader_def Let_def)
  from 1 2 3 4 5 6 show ?thesis by blast
qed

text \<open>
  Claim C4. For every header string that contains \<^verbatim>\<open>normal\<close>, the decoder
  sets \<^verbatim>\<open>normal\<close> to true, \<^verbatim>\<open>id\<close> to the first token (there always is one),
  \<^verbatim>\<open>flags\<close> to \<^verbatim>\<open>parseInt\<close> of the second token in base 10 and \<^verbatim>\<open>version\<close>
  to the fourth token, and gives the object no \<^verbatim>\<open>compression\<close> and no
  \<^verbatim>\<open>time\<close> key.
\<close>

theorem normal_format_decoding:
  assumes "\<exists>u v. h = u @ ''normal'' @ v"
  shows "let tokens = split h (CHR '' '');
             md = processRailgunHeader (Str h)
         in normal md = Some True
            \<and> id' md = Some (element tokens 0) \<and> element tokens 0 = Str (hd tokens)
            \<and> flags md = Some (parseInt10 (element tokens 1))
            \<and> version md = Some (element tokens 3)
            \<and> compression md = None \<and> time md = None"
proof -
  from assms have "indexOf h ''normal'' \<noteq> - 1" by (simp add: indexOf_found)
  then show ?thesis
    by (simp add: processRailgunHeader_def Let_def empty_object_def element_0_split)
qed

theorem normal_format_decoding_witness:
  "(\<exists>u v. ''e95b1c46e0 0005 normal 9878'' = u @ ''normal'' @ v)
   \<and> (let md = processRailgunHeader (Str ''e95b1c46e0 0005 normal 9878'')
      in normal md = Some True \<and> id' md = Some (Str ''e95b1c46e0'')
         \<and> flags md = Some (Fin 5) \<and> version md = Some (Str ''9878'')
         \<and> compression md = None \<and> time md = None)"
proof -
  have h: "\<exists>u v. ''e95b1c46e0 0005 normal 9878'' = u @ ''normal'' @ v"
    by (rule exI [of _ "''e95b1c46e0 0005 ''"], rule exI [of _ "'' 9878''"]) simp
  have s: "split ''e95b1c46e0 0005 normal 9878'' (CHR '' '') =
             [''e95b1c46e0'', ''0005'', ''normal'', ''9878'']"
    by (simp add: split_def)
  show ?thesis
    using h normal_format_decoding [OF h]
    by (simp add: s element_def parseInt10_0005 Let_def)
qed

text \<open>
  Claim C5. For every header string that does not contain \<^verbatim>\<open>normal\<close>, the
  decoder sets \<^verbatim>\<open>id\<close> to the first token, \<^verbatim>\<open>compression\<close> to
  \<^verbatim>\<open>(100 - tokens[1]) + '%'\<close> (the second token converted to a Number and
  subtracted from 100 in double arithmetic, the difference converted to a
  string), \<^verbatim>\<open>time\<close> to \<^verbatim>\<open>tokens[2] + 'sec'\<close>, \<^verbatim>\<open>flags\<close> to \<^verbatim>\<open>parseInt\<close> of the
  fourth token in base 10 and \<^verbatim>\<open>version\<close> to the fifth token.
\<close>

theorem compressed_format_decoding:
  assumes "\<not> (\<exists>u v. h = u @ ''normal'' @ v)"
  shows "let tokens = split h (CHR '' '');
             md = processRailgunHeader (Str h)
         in normal md = Some False
            \<and> id' md = Some (element tokens 0) \<and> element tokens 0 = Str (hd tokens)
            \<and> compression md =
                Some (Number_toString (subtract (DFin False 100 0) (ToNumber (element tokens 1)))
                      @ ''%'')
            \<and> time md = Some (ToString (element tokens 2) @ ''sec'')
            \<and> flags md = Some (parseInt10 (element tokens 3))
            \<and> version md = Some (element tokens 4)"
proof -
  from assms have "indexOf h ''normal'' = - 1"
    using indexOf_found [of h "''normal''"] by blast
  then show ?thesis
    by (simp add: processRailgunHeader_def Let_def empty_object_def element_0_split
        minus_from_100_def)
qed

lemma example_without_normal:
  "\<not> (\<exists>u v. ''e95b1c46e0 0.02 0.037872 0030 9878'' = u @ ''normal'' @ v)"
proof -
  have "indexOf ''e95b1c46e0 0.02 0.037872 0030 9878'' ''normal'' = - 1"
    by (simp add: indexOf_def)
  then show ?thesis
    using indexOf_found [of "''e95b1c46e0 0.02 0.037872 0030 9878''" "''normal''"] by blast
qed

theorem compressed_format_decoding_witness:
  "\<not> (\<exists>u v. ''e95b1c46e0 0.02 0.037872 0030 9878'' = u @ ''normal'' @ v)
   \<and> (let md = processRailgunHeader (Str ''e95b1c46e0 0.02 0.037872 0030 9878'')
      in normal md = Some False \<and> id' md = Some (Str ''e95b1c46e0'')
         \<and> compression md = Some ''99.98%'' \<and> time md = Some ''0.037872sec''
         \<and> flags md = Some (Fin 30) \<and> version md = Some (Str ''9878''))"
proof -
  have s: "split ''e95b1c46e0 0.02 0.037872 0030 9878'' (CHR '' '') =
             [''e95b1c46e0'', ''0.02'', ''0.037872'', ''0030'', ''9878'']"
    by (simp add: split_def)
  have m: "Number_toString (subtract (DFin False 100 0) (ToNumber (Str ''0.02''))) = ''99.98''"
    using minus_from_100_0_02 by (simp only: minus_from_100_def)
  show ?thesis
    using example_without_normal compressed_format_decoding [OF example_without_normal]
    by (simp add: s element_def parseInt10_0030 m Let_def)
qed

section \<open>The Request object\<close>

lemma isv6IP_string: "ip (details this) = Str s \<Longrightarrow> isv6IP this = Inr (CHR '':'' \<in> set s)"
  by (simp add: isv6IP_def getServerIP_def indexOf_char)

lemma isv6IP_undefined: "ip (details this) = Undefined \<Longrightarrow> isv6IP this = Inl TypeError"
  by (simp add: isv6IP_def getServerIP_def)

lemma getPageActionPath_string:
  assumes "ip (details this) = Str s"
  shows "getPageActionPath this =
           Inr (''images/claire-3-''
                @ spec_icon_variant (servedByCloudFlare this) (truthy (servedOverSPDY this))
                    (CHR '':'' \<in> set s) (servedByRailgun this)
                @ ''.png'')"
  by (simp add: getPageActionPath_def isv6IP_string [OF assms] spec_icon_variant_def Let_def)

lemma getPageActionPath_undefined:
  "ip (details this) = Undefined \<Longrightarrow> getPageActionPath this = Inl TypeError"
  by (simp add: getPageActionPath_def isv6IP_undefined Let_def)

lemma new_Request_Some:
  assumes "responseHeaders d = Some raw"
  shows "\<exists>this. new_Request d = Inr this \<and> details this = d
           \<and> headers this = store_headers raw Map.empty
           \<and> hasSPDYStatus this = False \<and> SPDY this = JUndefined
           \<and> railgunMetaData this =
               map_option (processRailgunHeader) (store_headers raw Map.empty ''CF-RAILGUN'')"
  using assms
  by (cases "store_headers raw Map.empty ''CF-RAILGUN''")
     (simp_all add: new_Request_def preProcessHeaders_def Let_def)

lemma new_Request_None:
  "responseHeaders d = None \<Longrightarrow> new_Request d = Inl TypeError"
  by (simp add: new_Request_def preProcessHeaders_def)

lemma example_new_Request: "new_Request example_details = Inr example_request"
  by (simp add: new_Request_def preProcessHeaders_def example_details_def example_request_def
      example_headers_def store_headers_def upper_char_def latin1_small_def latin1_capital_def Let_def)

lemma example_reached:
  "processCompletedRequest example_details initial_state = (Returned, example_state)"
  by (simp add: processCompletedRequest_def example_new_Request logToConsole_def
      initial_state_def example_state_def) (simp add: example_details_def)

lemma example_lookup: "lookup example_state 1 = Some (0, example_request)"
  by (simp add: lookup_def example_state_def)

lemma example_ip: "ip (details example_request) = Str ''2001:db8::1''"
  by (simp add: example_request_def example_details_def)

lemma cached_new_Request: "new_Request cached_details = Inr cached_request"
  by (simp add: new_Request_def preProcessHeaders_def example_details_def example_request_def
      cached_details_def cached_request_def
      example_headers_def store_headers_def upper_char_def latin1_small_def latin1_capital_def Let_def)


lemma to_double_not_NaN: "to_double neg n \<noteq> NaN"
  by (simp add: to_double_def Let_def)

text \<open>
  \<^verbatim>\<open>parseInt\<close> returns \<open>NaN\<close> only for a token that is no base-10 integer,
  but not for every such token: it reads the digits a token starts with.
\<close>

lemma parseInt10_integer:
  assumes "spec_base10_integer s"
  shows "parseInt10 (Str s) \<noteq> NaN"
proof (cases s)
  case Nil
  with assms show ?thesis by (simp add: spec_base10_integer_def)
next
  case (Cons c cs)
  show ?thesis
  proof (cases "c = CHR ''-'' \<or> c = CHR ''+''")
    case True
    with assms Cons have cs: "cs \<noteq> []" "list_all is_digit cs"
      by (auto simp: spec_base10_integer_def)
    from True have "\<not> StrWhiteSpaceChar c" by (auto simp: StrWhiteSpaceChar_def)
    moreover from cs have "takeWhile is_digit cs \<noteq> []"
      by (cases cs) (simp_all add: list_all_iff)
    ultimately show ?thesis using Cons True
      by (simp add: parseInt10_def Let_def to_double_not_NaN)
  next
    case False
    with assms Cons have ds: "list_all is_digit (c # cs)"
      by (auto simp: spec_base10_integer_def)
    then have "\<not> StrWhiteSpaceChar c" by (auto simp: StrWhiteSpaceChar_def is_digit_def)
    moreover from ds have "takeWhile is_digit (c # cs) \<noteq> []" by simp
    ultimately show ?thesis using Cons False
      by (simp add: parseInt10_def Let_def to_double_not_NaN)
  qed
qed

lemma parseInt10_NaN_no_integer: "parseInt10 (Str s) = NaN \<Longrightarrow> \<not> spec_base10_integer s"
  using parseInt10_integer by blast




text \<open>
  Claim C7, as the code has it. A Request whose details carry no ip has no
  icon path: computing it raises.
\<close>

theorem icon_path_without_ip_counterexample:
  "getPageActionPath cached_request = Inl TypeError"
  by (simp add: getPageActionPath_undefined cached_request_def cached_details_def)

text \<open>
  Claim C7, amended. For every Request whose captured server ip is a string,
  the icon path is the fixed root, the specification's variant key and the
  fixed extension, where the key is built from: \<^verbatim>\<open>on\<close> if the \<^verbatim>\<open>SERVER\<close>
  header equals \<^verbatim>\<open>cloudflare-nginx\<close> exactly, else \<^verbatim>\<open>off\<close>; \<^verbatim>\<open>spdy\<close> iff the
  stored transport status is truthy; \<^verbatim>\<open>ipv6\<close> iff the ip contains a colon;
  \<^verbatim>\<open>rg\<close> iff the \<^verbatim>\<open>CF-RAILGUN\<close> header is present. All four true give
  \<^verbatim>\<open>on-spdy-ipv6-rg\<close>, all four false give \<^verbatim>\<open>off\<close>.
\<close>

theorem icon_path:
  assumes "ip (details this) = Str s"
  shows "getPageActionPath this =
           Inr (''images/claire-3-''
                @ spec_icon_variant (servedByCloudFlare this) (truthy (servedOverSPDY this))
                    (CHR '':'' \<in> set s) (servedByRailgun this)
                @ ''.png'')
         \<and> servedByCloudFlare this = (headers this ''SERVER'' = Some (Str ''cloudflare-nginx''))
         \<and> servedOverSPDY this = SPDY this
         \<and> servedByRailgun this = (headers this ''CF-RAILGUN'' \<noteq> None)
         \<and> spec_icon_variant True True True True = ''on-spdy-ipv6-rg''
         \<and> spec_icon_variant False False False False = ''off''"
proof -
  have "servedByCloudFlare this = (headers this ''SERVER'' = Some (Str ''cloudflare-nginx''))"
    by (auto simp: servedByCloudFlare_def)
  moreover have "spec_icon_variant True True True True = ''on-spdy-ipv6-rg''"
    by (simp add: spec_icon_variant_def)
  moreover have "spec_icon_variant False False False False = ''off''"
    by (simp add: spec_icon_variant_def)
  ultimately show ?thesis
    using getPageActionPath_string [OF assms]
    by (simp add: servedByRailgun_def servedOverSPDY_def)
qed

theorem icon_path_witness:
  "ip (details (example_request\<lparr>SPDY := JBool True\<rparr>)) = Str ''2001:db8::1''
   \<and> getPageActionPath (example_request\<lparr>SPDY := JBool True\<rparr>) =
       Inr ''images/claire-3-on-spdy-ipv6-rg.png''
   \<and> ip (details plain_request) = Str ''192.0.2.7''
   \<and> getPageActionPath plain_request = Inr ''images/claire-3-off.png''"
proof -
  have a: "ip (details (example_request\<lparr>SPDY := JBool True\<rparr>)) = Str ''2001:db8::1''"
    by (simp add: example_ip)
  have b: "ip (details plain_request) = Str ''192.0.2.7''"
    by (simp add: plain_request_def)
  have c: "servedByCloudFlare (example_request\<lparr>SPDY := JBool True\<rparr>)
           \<and> servedByRailgun (example_request\<lparr>SPDY := JBool True\<rparr>)"
    by (simp add: servedByCloudFlare_def servedByRailgun_def example_request_def)
  have d: "\<not> servedByCloudFlare plain_request \<and> \<not> servedByRailgun plain_request
           \<and> SPDY plain_request = JUndefined"
    by (simp add: servedByCloudFlare_def servedByRailgun_def plain_request_def)
  show ?thesis
    using icon_path [OF a] icon_path [OF b] a b c d by simp
qed

text \<open>
  Claim C10. \<^verbatim>\<open>isv6IP\<close> reads the ip unconditionally. On a Request whose
  details carry no ip it raises, and so does the computation of the icon path;
  the constructor builds such a Request from completion details without an ip.
  When the ip is a string, \<^verbatim>\<open>isv6IP\<close> returns whether the string contains a
  colon and the icon path is computed.
\<close>

theorem ipv6_test_needs_ip:
  "(ip (details this) = Undefined \<longrightarrow>
      isv6IP this = Inl TypeError \<and> getPageActionPath this = Inl TypeError)
   \<and> (\<forall>s. ip (details this) = Str s \<longrightarrow>
         isv6IP this = Inr (CHR '':'' \<in> set s) \<and> (\<exists>p. getPageActionPath this = Inr p))
   \<and> (\<forall>raw. responseHeaders d = Some raw \<and> ip d = Undefined \<longrightarrow>
         (\<exists>r. new_Request d = Inr r \<and> isv6IP r = Inl TypeError
              \<and> getPageActionPath r = Inl TypeError))"
proof (intro conjI allI impI)
  assume "ip (details this) = Undefined"
  then show "isv6IP this = Inl TypeError" by (rule isv6IP_undefined)
next
  assume "ip (details this) = Undefined"
  then show "getPageActionPath this = Inl TypeError" by (rule getPageActionPath_undefined)
next
  fix s assume "ip (details this) = Str s"
  then show "isv6IP this = Inr (CHR '':'' \<in> set s)" by (rule isv6IP_string)
next
  fix s assume "ip (details this) = Str s"
  then show "\<exists>p. getPageActionPath this = Inr p"
    using getPageActionPath_string by blast
next
  fix raw assume h: "responseHeaders d = Some raw \<and> ip d = Undefined"
  then obtain r where r: "new_Request d = Inr r" "details r = d"
    using new_Request_Some [of d raw] by blast
  with h have "ip (details r) = Undefined" by simp
  then have "isv6IP r = Inl TypeError \<and> getPageActionPath r = Inl TypeError"
    by (simp add: isv6IP_undefined getPageActionPath_undefined)
  with r show "\<exists>r. new_Request d = Inr r \<and> isv6IP r = Inl TypeError
              \<and> getPageActionPath r = Inl TypeError" by blast
qed

theorem ipv6_test_needs_ip_witness:
  "ip (details cached_request) = Undefined
   \<and> isv6IP cached_request = Inl TypeError
   \<and> getPageActionPath cached_request = Inl TypeError
   \<and> ip (details example_request) = Str ''2001:db8::1''
   \<and> isv6IP example_request = Inr True
   \<and> (\<exists>p. getPageActionPath example_request = Inr p)
   \<and> ip (details plain_request) = Str ''192.0.2.7''
   \<and> isv6IP plain_request = Inr False
   \<and> responseHeaders cached_details = Some example_headers \<and> ip cached_details = Undefined
   \<and> new_Request cached_details = Inr cached_request"
proof -
  have a: "ip (details cached_request) = Undefined"
    by (simp add: cached_request_def cached_details_def)
  have b: "ip (details plain_request) = Str ''192.0.2.7''"
    by (simp add: plain_request_def)
  have c: "responseHeaders cached_details = Some example_headers \<and> ip cached_details = Undefined"
    by (simp add: cached_details_def example_details_def)
  show ?thesis
    using ipv6_test_needs_ip [of cached_request cached_details]
      ipv6_test_needs_ip [of example_request cached_details]
      ipv6_test_needs_ip [of plain_request cached_details]
      a b c example_ip cached_new_Request
    by simp
qed

section \<open>The listeners\<close>

lemma logToConsole_frame:
  "requests (snd (logToConsole r st)) = requests st \<and> heap (snd (logToConsole r st)) = heap st
   \<and> calls (snd (logToConsole r st)) = calls st
   \<and> localStorage (snd (logToConsole r st)) = localStorage st"
  by (simp add: logToConsole_def console_log_def Let_def split: option.splits)

lemma processCompletedRequest_stores:
  assumes "new_Request d = Inr request"
  shows "requests (snd (processCompletedRequest d st)) =
           (requests st)(tabId d \<mapsto> length (heap st))
         \<and> heap (snd (processCompletedRequest d st)) = heap st @ [request]
         \<and> calls (snd (processCompletedRequest d st)) = calls st"
  using assms by (simp add: processCompletedRequest_def logToConsole_frame)

lemma example_path:
  "getPageActionPath (example_request\<lparr>SPDY := JBool True\<rparr>) =
     Inr ''images/claire-3-on-spdy-ipv6-rg.png''"
  using getPageActionPath_string [of "example_request\<lparr>SPDY := JBool True\<rparr>" "''2001:db8::1''"]
  by (simp add: example_request_def example_details_def spec_icon_variant_def
      servedByCloudFlare_def servedByRailgun_def servedOverSPDY_def)

lemma querySPDYStatusAndSetIcon_frame:
  "requests (snd (querySPDYStatusAndSetIcon this st)) = requests st
   \<and> heap (snd (querySPDYStatusAndSetIcon this st)) = heap st"
  by (simp add: querySPDYStatusAndSetIcon_def setPageActionIconAndPopup_def call_def
      split: sum.splits)

text \<open>
  The references of the registry stay allocated under every listener, so an
  entry of the registry always leads to an object.
\<close>

lemma allocated_initial: "allocated initial_state"
  by (simp add: allocated_def initial_state_def)

lemma lookup_allocated: "allocated st \<Longrightarrow> (lookup st t = None) = (requests st t = None)"
  by (auto simp: allocated_def lookup_def split: option.splits)

lemma allocated_processCompletedRequest:
  assumes "allocated st"
  shows "allocated (snd (processCompletedRequest d st))"
proof (cases "new_Request d")
  case (Inl e)
  with assms show ?thesis by (simp add: processCompletedRequest_def)
next
  case (Inr request)
  from assms show ?thesis
    using processCompletedRequest_stores [OF Inr, of st]
    by (auto simp: allocated_def less_Suc_eq)
qed

lemma allocated_onReplaced: "allocated st \<Longrightarrow> allocated (onReplaced a r st)"
  by (auto simp: allocated_def onReplaced_def console_log_def split: option.splits if_splits)

lemma allocated_onRemoved: "allocated st \<Longrightarrow> allocated (onRemoved t st)"
  by (auto simp: allocated_def onRemoved_def split: if_splits)

lemma allocated_onDOMContentLoaded:
  "allocated st \<Longrightarrow> allocated (snd (onDOMContentLoaded d st))"
  by (simp add: allocated_def onDOMContentLoaded_def querySPDYStatusAndSetIcon_frame
      split: option.splits)

lemma setPageActionIconAndPopup_frame:
  "requests (snd (setPageActionIconAndPopup this st)) = requests st
   \<and> heap (snd (setPageActionIconAndPopup this st)) = heap st"
  by (simp add: setPageActionIconAndPopup_def call_def split: sum.splits)

lemma allocated_cs_message_callback:
  "allocated st \<Longrightarrow> allocated (snd (cs_message_callback tabID resp st))"
  by (auto simp: allocated_def cs_message_callback_def setPageActionIconAndPopup_frame Let_def
      split: response.splits option.splits)

lemma allocated_onMessage: "allocated st \<Longrightarrow> allocated (snd (onMessage msg sndr st))"
  by (auto simp: allocated_def onMessage_def call_def Let_def split: option.splits)

lemma store_headers_last:
  "toUpperCase (header_name h) = Some key \<Longrightarrow>
     store_headers (raw @ [h]) hs key = Some (header_value h)"
  by (simp add: store_headers_def)

text \<open>
  Claim C8. When a request completes in a tab and the tab is then replaced
  by another one, the old tab id has no entry, the new tab id holds the very
  reference the old one held, which points to the Request built from the
  completion details, the heap is as it was, and the entry of every other tab
  id is the one it had before the request completed. When the removed tab id
  has no entry, the listener writes one line to the console and leaves the
  registry and the heap as they are.
\<close>

theorem tab_replace_moves_record:
  assumes "new_Request d = Inr request"
    and "processCompletedRequest d st = (c, st1)"
    and "addedTabId \<noteq> tabId d"
  shows "requests (onReplaced addedTabId (tabId d) st1) (tabId d) = None
       \<and> lookup (onReplaced addedTabId (tabId d) st1) (tabId d) = None
       \<and> requests st1 (tabId d) = Some (length (heap st))
       \<and> requests (onReplaced addedTabId (tabId d) st1) addedTabId = Some (length (heap st))
       \<and> lookup st1 (tabId d) = Some (length (heap st), request)
       \<and> lookup (onReplaced addedTabId (tabId d) st1) addedTabId = Some (length (heap st), request)
       \<and> heap (onReplaced addedTabId (tabId d) st1) = heap st1
       \<and> heap st1 = heap st @ [request]
       \<and> (\<forall>t. t \<noteq> tabId d \<and> t \<noteq> addedTabId \<longrightarrow>
             requests (onReplaced addedTabId (tabId d) st1) t = requests st t)
       \<and> console (onReplaced addedTabId (tabId d) st1) = console st1
       \<and> (\<forall>s a r. requests s r = None \<longrightarrow>
             onReplaced a r s =
               s\<lparr>console := console s @
                   [[LString ''could not find an entry in requests for '', LInt r]]\<rparr>
             \<and> requests (onReplaced a r s) = requests s \<and> heap (onReplaced a r s) = heap s)"
proof -
  from assms(2) have st1: "st1 = snd (processCompletedRequest d st)" by simp
  have r1: "requests st1 = (requests st)(tabId d \<mapsto> length (heap st))"
    and h1: "heap st1 = heap st @ [request]"
    using processCompletedRequest_stores [OF assms(1), of st] by (simp_all add: st1)
  let ?st2 = "onReplaced addedTabId (tabId d) st1"
  have r2: "requests ?st2 = ((requests st1)(addedTabId \<mapsto> length (heap st)))(tabId d := None)"
    and h2: "heap ?st2 = heap st1" and c2: "console ?st2 = console st1"
    by (simp_all add: onReplaced_def r1)
  have other: "\<forall>t. t \<noteq> tabId d \<and> t \<noteq> addedTabId \<longrightarrow> requests ?st2 t = requests st t"
    by (simp add: r2 r1)
  have missing: "\<forall>s a r. requests s r = None \<longrightarrow>
             onReplaced a r s =
               s\<lparr>console := console s @
                   [[LString ''could not find an entry in requests for '', LInt r]]\<rparr>
             \<and> requests (onReplaced a r s) = requests s \<and> heap (onReplaced a r s) = heap s"
    by (simp add: onReplaced_def console_log_def)
  have "requests ?st2 (tabId d) = None" by (simp add: r2)
  moreover have "lookup ?st2 (tabId d) = None" by (simp add: lookup_def r2)
  moreover have "requests st1 (tabId d) = Some (length (heap st))" by (simp add: r1)
  moreover have "requests ?st2 addedTabId = Some (length (heap st))"
    using assms(3) by (simp add: r2)
  moreover have "lookup st1 (tabId d) = Some (length (heap st), request)"
    by (simp add: lookup_def r1 h1)
  moreover have "lookup ?st2 addedTabId = Some (length (heap st), request)"
    using assms(3) by (simp add: lookup_def r2 h2 h1)
  ultimately show ?thesis using h2 h1 c2 other missing by blast
qed

theorem tab_replace_moves_record_witness:
  "new_Request example_details = Inr example_request
   \<and> processCompletedRequest example_details initial_state = (Returned, example_state)
   \<and> (2 :: int) \<noteq> tabId example_details
   \<and> lookup example_state 1 = Some (0, example_request)
   \<and> lookup (onReplaced 2 1 example_state) 1 = None
   \<and> lookup (onReplaced 2 1 example_state) 2 = Some (0, example_request)
   \<and> heap (onReplaced 2 1 example_state) = [example_request]
   \<and> requests (onReplaced 2 1 example_state) 7 = requests initial_state 7
   \<and> requests example_state 5 = None
   \<and> console (onReplaced 2 5 example_state) =
       [[LString ''could not find an entry in requests for '', LInt 5]]
   \<and> requests (onReplaced 2 5 example_state) = requests example_state"
proof -
  have t: "tabId example_details = 1" by (simp add: example_details_def)
  have n: "(2 :: int) \<noteq> tabId example_details" by (simp add: t)
  have h: "heap initial_state = []" by (simp add: initial_state_def)
  have m: "requests example_state 5 = None" by (simp add: example_state_def)
  have e: "console example_state = []" by (simp add: example_state_def)
  have "requests (onReplaced 2 1 example_state) 7 = requests initial_state 7"
    using tab_replace_moves_record [OF example_new_Request example_reached n] by (simp add: t)
  moreover have "console (onReplaced 2 5 example_state) =
       [[LString ''could not find an entry in requests for '', LInt 5]]
     \<and> requests (onReplaced 2 5 example_state) = requests example_state"
    using tab_replace_moves_record [OF example_new_Request example_reached n] m
    by (simp add: e)
  ultimately show ?thesis
    using tab_replace_moves_record [OF example_new_Request example_reached n]
      example_new_Request example_reached n m
    by (simp add: t h)
qed

text \<open>
  Claim C1, evaluated. Tab 1 has a record and its page reports \<^verbatim>\<open>spdy: true\<close>.
  The listener marks the status as known but stores \<^verbatim>\<open>undefined\<close>, the value
  of the record's own (missing) \<^verbatim>\<open>spdy\<close> property, so \<^verbatim>\<open>servedOverSPDY\<close> does
  not return the reported value.
\<close>

theorem message_status_lost:
  "spdy \<lparr>spdy = JBool True\<rparr> = JBool True
   \<and> lookup example_state 1 = Some (0, example_request)
   \<and> fst (onMessage \<lparr>spdy = JBool True\<rparr> \<lparr>tab_id = Some 1\<rparr> example_state) = Returned
   \<and> lookup (snd (onMessage \<lparr>spdy = JBool True\<rparr> \<lparr>tab_id = Some 1\<rparr> example_state)) 1 =
       Some (0, example_request\<lparr>hasSPDYStatus := True, SPDY := JUndefined\<rparr>)
   \<and> servedOverSPDY (example_request\<lparr>hasSPDYStatus := True, SPDY := JUndefined\<rparr>) = JUndefined
   \<and> calls (snd (onMessage \<lparr>spdy = JBool True\<rparr> \<lparr>tab_id = Some 1\<rparr> example_state)) =
       [SendResponse]"
  by (simp add: onMessage_def example_lookup call_def lookup_def setSPDYStatus_def property_def
      prototype_names_def servedOverSPDY_def example_state_def)

text \<open>
  Claim C2, evaluated. The record of tab 1 does not know the status and the
  content script answers the query with \<^verbatim>\<open>spdy: true\<close>. The callback stores
  the value and sets the icon once, but \<^verbatim>\<open>hasSPDYStatus\<close> stays false, so the
  next DOM-content-loaded event asks the content script again instead of using
  the stored value. The message listener, the other way a status arrives, marks
  the status as known and sets no icon.
\<close>

theorem status_response_stays_unknown:
  "hasSPDYStatus example_request = False
   \<and> fst (cs_message_callback 1 (Response (JBool True)) example_state) = Returned
   \<and> lookup (snd (cs_message_callback 1 (Response (JBool True)) example_state)) 1 =
       Some (0, example_request\<lparr>SPDY := JBool True\<rparr>)
   \<and> hasSPDYStatus (example_request\<lparr>SPDY := JBool True\<rparr>) = False
   \<and> calls (snd (cs_message_callback 1 (Response (JBool True)) example_state)) =
       [SetIcon 1 ''images/claire-3-on-spdy-ipv6-rg.png'']
   \<and> calls (snd (onDOMContentLoaded \<lparr>tabId = 1, frameId = 0\<rparr>
               (snd (cs_message_callback 1 (Response (JBool True)) example_state)))) =
       [SetIcon 1 ''images/claire-3-on-spdy-ipv6-rg.png'', SendMessage 1 ''check_spdy_status'']
   \<and> calls (snd (onMessage \<lparr>spdy = JBool True\<rparr> \<lparr>tab_id = Some 1\<rparr> example_state)) =
       [SendResponse]"
proof -
  have cb: "cs_message_callback 1 (Response (JBool True)) example_state =
          (Returned, example_state\<lparr>heap := [example_request\<lparr>SPDY := JBool True\<rparr>],
             calls := [SetIcon 1 ''images/claire-3-on-spdy-ipv6-rg.png'']\<rparr>)"
    by (simp add: cs_message_callback_def example_lookup setPageActionIconAndPopup_def
        example_path call_def)
       (simp add: example_state_def example_request_def example_details_def)
  have q: "calls (snd (onDOMContentLoaded \<lparr>tabId = 1, frameId = 0\<rparr>
               (example_state\<lparr>heap := [example_request\<lparr>SPDY := JBool True\<rparr>],
             calls := [SetIcon 1 ''images/claire-3-on-spdy-ipv6-rg.png'']\<rparr>))) =
       [SetIcon 1 ''images/claire-3-on-spdy-ipv6-rg.png'', SendMessage 1 ''check_spdy_status'']"
    by (simp add: onDOMContentLoaded_def lookup_def example_state_def
        querySPDYStatusAndSetIcon_def call_def example_request_def example_details_def)
  have m: "calls (snd (onMessage \<lparr>spdy = JBool True\<rparr> \<lparr>tab_id = Some 1\<rparr> example_state)) =
       [SendResponse]"
    by (simp add: onMessage_def example_lookup call_def) (simp add: example_state_def)
  show ?thesis
    by (simp add: cb q m) (simp add: lookup_def example_state_def example_request_def)
qed

text \<open>
  Claim C3. The platform numbers the frames of a tab from 0, the top frame,
  and gives sub-frames positive ids. On such an event the DOM-content-loaded
  listener ignores every frame id other than 0 (the state is returned as it
  is). For frame id 0 and a tab id with a registry entry it runs
  \<^verbatim>\<open>querySPDYStatusAndSetIcon\<close> on that record: a record that does not know the
  status sends the query to the record's tab, a record that knows it sets the
  icon. For a tab id without an entry it does nothing. The registry and the
  heap are never changed.
\<close>

theorem dom_content_loaded:
  assumes "0 \<le> frameId d"
  shows "(frameId d \<noteq> 0 \<longrightarrow> onDOMContentLoaded d st = (Returned, st))
   \<and> (frameId d = 0 \<and> lookup st (tabId d) = Some (a, request) \<longrightarrow>
        onDOMContentLoaded d st = querySPDYStatusAndSetIcon request st)
   \<and> (requests st (tabId d) = None \<longrightarrow> onDOMContentLoaded d st = (Returned, st))
   \<and> (\<not> hasSPDYStatus request \<longrightarrow>
        querySPDYStatusAndSetIcon request st =
          (Returned, st\<lparr>calls := calls st @
             [SendMessage (tabId (details request)) ''check_spdy_status'']\<rparr>))
   \<and> (hasSPDYStatus request \<longrightarrow>
        querySPDYStatusAndSetIcon request st = setPageActionIconAndPopup request st)
   \<and> requests (snd (onDOMContentLoaded d st)) = requests st
   \<and> heap (snd (onDOMContentLoaded d st)) = heap st"
proof -
  from assms have guard: "(0 < frameId d) = (frameId d \<noteq> 0)" by auto
  have "requests (snd (onDOMContentLoaded d st)) = requests st
        \<and> heap (snd (onDOMContentLoaded d st)) = heap st"
    by (simp add: onDOMContentLoaded_def querySPDYStatusAndSetIcon_frame split: option.splits)
  then show ?thesis
    by (simp add: onDOMContentLoaded_def guard lookup_def querySPDYStatusAndSetIcon_def call_def)
qed

theorem dom_content_loaded_witness:
  "(0 :: int) \<le> frameId \<lparr>tabId = 1, frameId = 3\<rparr>
   \<and> frameId \<lparr>tabId = 1, frameId = 3\<rparr> \<noteq> (0 :: int)
   \<and> onDOMContentLoaded \<lparr>tabId = 1, frameId = 3\<rparr> example_state = (Returned, example_state)
   \<and> (0 :: int) \<le> frameId \<lparr>tabId = 1, frameId = 0\<rparr>
   \<and> frameId \<lparr>tabId = 1, frameId = 0\<rparr> = (0 :: int)
   \<and> lookup example_state (tabId \<lparr>tabId = 1, frameId = 0\<rparr>) = Some (0, example_request)
   \<and> \<not> hasSPDYStatus example_request
   \<and> onDOMContentLoaded \<lparr>tabId = 1, frameId = 0\<rparr> example_state =
       (Returned, example_state\<lparr>calls := [SendMessage 1 ''check_spdy_status'']\<rparr>)
   \<and> requests example_state (tabId \<lparr>tabId = 9, frameId = 0\<rparr>) = None
   \<and> onDOMContentLoaded \<lparr>tabId = 9, frameId = 0\<rparr> example_state = (Returned, example_state)"
proof -
  have f3: "(0 :: int) \<le> frameId \<lparr>tabId = 1, frameId = 3\<rparr>" by simp
  have f0: "(0 :: int) \<le> frameId \<lparr>tabId = 1, frameId = 0\<rparr>" by simp
  have f9: "(0 :: int) \<le> frameId \<lparr>tabId = 9, frameId = 0\<rparr>" by simp
  have l: "lookup example_state (tabId \<lparr>tabId = 1, frameId = 0\<rparr>) = Some (0, example_request)"
    by (simp add: example_lookup)
  have u: "\<not> hasSPDYStatus example_request" "tabId (details example_request) = 1"
    by (simp_all add: example_request_def example_details_def)
  have n: "requests example_state (tabId \<lparr>tabId = 9, frameId = 0\<rparr>) = None"
    "calls example_state = []"
    by (simp_all add: example_state_def)
  show ?thesis
    using dom_content_loaded [OF f3, of example_state 0 example_request]
      dom_content_loaded [OF f0, of example_state 0 example_request]
      dom_content_loaded [OF f9, of example_state 0 example_request]
      l u n
    by simp
qed

end
